theory Spec2Isabelle
  imports Complex_Main "HOL-Library.Multiset"
begin

section \<open>Python values\<close>

text \<open>
  The module \<^verbatim>\<open>rl_optimization/station_placement_rl.py\<close> works on Python floats,
  unbounded integers, strings, lists and dictionaries. Floats are modelled as
  \<^typ>\<open>real\<close> (exact arithmetic, no rounding), integers as \<^typ>\<open>int\<close> and counters
  that start at 0 and are only incremented as \<^typ>\<open>nat\<close>. An exception is a value
  of \<open>error\<close>; a function that can raise returns \<open>error + 'a\<close>.
\<close>

datatype error = ValueError | ZeroDivisionError | TypeError | StopIteration

text \<open>
  \<^verbatim>\<open>float('inf')\<close> is the start value of the running minimum in the distance loops.
  It survives a loop only when the loop body never runs, so one extra value is enough.
\<close>

datatype xreal = Fin real | PInf

text \<open>
  A \<^verbatim>\<open>defaultdict\<close> is a finite map with a default: reading a missing key
  yields the default and stores it under that key (\<open>dd_touch\<close>).
\<close>

definition dd_get :: "('k \<rightharpoonup> 'v) \<Rightarrow> 'v \<Rightarrow> 'k \<Rightarrow> 'v" where
  "dd_get m d k = (case m k of None \<Rightarrow> d | Some v \<Rightarrow> v)"

definition dd_touch :: "('k \<rightharpoonup> 'v) \<Rightarrow> 'v \<Rightarrow> 'k \<Rightarrow> ('k \<rightharpoonup> 'v)" where
  "dd_touch m d k = (case m k of None \<Rightarrow> m(k \<mapsto> d) | Some v \<Rightarrow> m)"

text \<open>
  A plain \<^verbatim>\<open>dict\<close> that is iterated keeps insertion order: an association list in
  which assigning to a present key overwrites the value in place.
\<close>

fun dict_set :: "('k \<times> 'v) list \<Rightarrow> 'k \<Rightarrow> 'v \<Rightarrow> ('k \<times> 'v) list" where
  "dict_set [] k v = [(k, v)]"
| "dict_set ((k', v') # kvs) k v =
     (if k' = k then (k, v) # kvs else (k', v') # dict_set kvs k v)"

text \<open>
  \<^verbatim>\<open>max(d, key=d.get)\<close> walks the keys in order and keeps the first key whose value
  is maximal: the candidate is replaced only by a strictly larger value.
\<close>

fun py_max_key :: "('k \<times> real) list \<Rightarrow> 'k \<times> real \<Rightarrow> 'k \<times> real" where
  "py_max_key [] best = best"
| "py_max_key ((k, v) # kvs) (bk, bv) =
     py_max_key kvs (if v > bv then (k, v) else (bk, bv))"

text \<open>\<^verbatim>\<open>np.mean\<close> of a non-empty list of floats.\<close>

definition mean :: "real list \<Rightarrow> real" where
  "mean xs = sum_list xs / real (length xs)"

text \<open>
  The pseudorandom source is an explicit argument. \<^verbatim>\<open>random.choice(xs)\<close> draws an
  index below \<open>len(xs)\<close>: the draw is a natural number, reduced modulo the length, so
  every draw is a legal one and every element can be chosen. The callers only use it on
  non-empty lists. \<^verbatim>\<open>random.uniform(a, b)\<close> is \<open>a + (b - a) * u\<close> for a draw \<open>u\<close> of
  \<^verbatim>\<open>random.random()\<close>.
\<close>

definition random_choice :: "'a list \<Rightarrow> nat \<Rightarrow> 'a" where
  "random_choice xs k = xs ! (k mod length xs)"

definition random_uniform :: "real \<Rightarrow> real \<Rightarrow> real \<Rightarrow> real" where
  "random_uniform a b u = a + (b - a) * u"

text \<open>\<^verbatim>\<open>xs[:n]\<close> for an integer \<open>n\<close>: a negative \<open>n\<close> counts from the end.\<close>

definition slice_upto :: "'a list \<Rightarrow> int \<Rightarrow> 'a list" where
  "slice_upto xs n = (if 0 \<le> n then take (nat n) xs else take (length xs - nat (- n)) xs)"

text \<open>Decimal formatting: \<^verbatim>\<open>f'{n}'\<close> and the zero-padded \<^verbatim>\<open>f'{n:02d}'\<close>.\<close>

fun str_nat :: "nat \<Rightarrow> string" where
  "str_nat n =
     (if n < 10 then [''0123456789'' ! n]
      else str_nat (n div 10) @ [''0123456789'' ! (n mod 10)])"

declare str_nat.simps [simp del]

definition str_nat_02d :: "nat \<Rightarrow> string" where
  "str_nat_02d n = (let s = str_nat n in replicate (2 - length s) (CHR ''0'') @ s)"

section \<open>The arms\<close>

text \<open>A candidate placement configuration, the dictionary built at lines 220-226.\<close>

record arm =
  arm_id :: string
  arm_lat :: real
  arm_lon :: real
  arm_type :: string
  arm_name :: string

section \<open>UCB bandit\<close>

record UCB_Bandit =
  ucb_c :: real
  ucb_counts :: "string \<rightharpoonup> nat"
  ucb_rewards :: "string \<rightharpoonup> real list"
  ucb_total_pulls :: nat

definition UCB_Bandit_init :: "real \<Rightarrow> UCB_Bandit" where
  "UCB_Bandit_init exploration_param =
     \<lparr>ucb_c = exploration_param, ucb_counts = Map.empty, ucb_rewards = Map.empty,
      ucb_total_pulls = 0\<rparr>"

text \<open>Line 57: the arms whose pull count reads 0.\<close>

definition untried_arms :: "UCB_Bandit \<Rightarrow> arm list \<Rightarrow> arm list" where
  "untried_arms b arms = filter (\<lambda>a. dd_get (ucb_counts b) 0 (arm_id a) = 0) arms"

text \<open>
  Lines 63-69: the UCB value of every arm, in a dictionary keyed by arm id. Reading
  \<^verbatim>\<open>self.rewards[arm_id]\<close> stores an empty history for a new id. \<^verbatim>\<open>math.log\<close>
  raises ValueError at 0 and the division raises ZeroDivisionError at a zero count;
  with a positive total and a positive count the argument of \<^verbatim>\<open>math.sqrt\<close> is not
  negative.
\<close>

fun ucb_values_loop ::
  "UCB_Bandit \<Rightarrow> arm list \<Rightarrow> (string \<times> real) list \<Rightarrow> (error + (string \<times> real) list) \<times> UCB_Bandit"
where
  "ucb_values_loop b [] ucb_values = (Inr ucb_values, b)"
| "ucb_values_loop b (a # arms) ucb_values =
     (let aid = arm_id a;
          b1 = b\<lparr>ucb_rewards := dd_touch (ucb_rewards b) [] aid\<rparr>;
          hist = dd_get (ucb_rewards b1) [] aid;
          avg_reward = (if hist \<noteq> [] then mean hist else 0);
          n = dd_get (ucb_counts b1) 0 aid
      in if ucb_total_pulls b1 = 0 then (Inl ValueError, b1)
         else if n = 0 then (Inl ZeroDivisionError, b1)
         else
           let confidence = ucb_c b1 * sqrt (ln (real (ucb_total_pulls b1)) / real n)
           in ucb_values_loop b1 arms (dict_set ucb_values aid (avg_reward + confidence)))"

text \<open>
  \<^verbatim>\<open>UCB_Bandit.select_arm\<close> (lines 43-73). \<open>rnd\<close> is the draw of
  \<^verbatim>\<open>random.choice\<close>. The result is the returned value (\<open>None\<close> is Python's
  \<^verbatim>\<open>None\<close>) or the exception, and the bandit after the call: the list comprehension
  of line 57 stores a zero count for every arm id it reads.
\<close>

definition ucb_select_arm ::
  "UCB_Bandit \<Rightarrow> arm list \<Rightarrow> nat \<Rightarrow> (error + arm option) \<times> UCB_Bandit"
where
  "ucb_select_arm b arms rnd =
     (if arms = [] then (Inr None, b)
      else
        let b1 = b\<lparr>ucb_counts := fold (\<lambda>a m. dd_touch m 0 (arm_id a)) arms (ucb_counts b)\<rparr>;
            untried = untried_arms b1 arms
        in if untried \<noteq> [] then (Inr (Some (random_choice untried rnd)), b1)
           else
             (case ucb_values_loop b1 arms [] of
                (Inl e, b2) \<Rightarrow> (Inl e, b2)
              | (Inr [], b2) \<Rightarrow> (Inl ValueError, b2)
              | (Inr (kv # kvs), b2) \<Rightarrow>
                  let best_arm_id = fst (py_max_key kvs kv)
                  in (case find (\<lambda>a. arm_id a = best_arm_id) arms of
                        None \<Rightarrow> (Inl StopIteration, b2)
                      | Some a \<Rightarrow> (Inr (Some a), b2))))"

text \<open>\<^verbatim>\<open>UCB_Bandit.update\<close> (lines 75-86).\<close>

definition ucb_update :: "UCB_Bandit \<Rightarrow> arm \<Rightarrow> real \<Rightarrow> UCB_Bandit" where
  "ucb_update b a reward =
     (let aid = arm_id a
      in b\<lparr>ucb_counts := (ucb_counts b)(aid \<mapsto> dd_get (ucb_counts b) 0 aid + 1),
           ucb_rewards := (ucb_rewards b)(aid \<mapsto> dd_get (ucb_rewards b) [] aid @ [reward]),
           ucb_total_pulls := ucb_total_pulls b + 1\<rparr>)"

section \<open>Epsilon-greedy bandit\<close>

record EpsilonGreedy_Bandit =
  epsilon :: real
  initial_epsilon :: real
  epsilon_decay :: real
  eps_rewards :: "string \<rightharpoonup> real list"
  eps_counts :: "string \<rightharpoonup> nat"

definition EpsilonGreedy_Bandit_init :: "real \<Rightarrow> real \<Rightarrow> EpsilonGreedy_Bandit" where
  "EpsilonGreedy_Bandit_init eps decay =
     \<lparr>epsilon = eps, initial_epsilon = eps, epsilon_decay = decay,
      eps_rewards = Map.empty, eps_counts = Map.empty\<rparr>"

text \<open>
  Lines 139-148: the exploit loop. \<^verbatim>\<open>best_arm\<close> and \<^verbatim>\<open>best_avg\<close> are assigned
  together, so the pair starts as \<open>None\<close> (\<^verbatim>\<open>None\<close> and \<^verbatim>\<open>-inf\<close>: every mean
  is larger) and is \<open>Some (best_arm, best_avg)\<close> afterwards.
\<close>

fun eps_best_loop ::
  "EpsilonGreedy_Bandit \<Rightarrow> arm list \<Rightarrow> (arm \<times> real) option \<Rightarrow> (arm \<times> real) option \<times> EpsilonGreedy_Bandit"
where
  "eps_best_loop b [] best = (best, b)"
| "eps_best_loop b (a # arms) best =
     (let aid = arm_id a;
          b1 = b\<lparr>eps_rewards := dd_touch (eps_rewards b) [] aid\<rparr>;
          hist = dd_get (eps_rewards b1) [] aid
      in if hist \<noteq> [] then
           (let avg_reward = mean hist
            in case best of
                 None \<Rightarrow> eps_best_loop b1 arms (Some (a, avg_reward))
               | Some (best_arm, best_avg) \<Rightarrow>
                   if avg_reward > best_avg then eps_best_loop b1 arms (Some (a, avg_reward))
                   else eps_best_loop b1 arms best)
         else eps_best_loop b1 arms best)"

text \<open>
  \<^verbatim>\<open>EpsilonGreedy_Bandit.select_arm\<close> (lines 129-150). \<open>u\<close> is the draw of
  \<^verbatim>\<open>random.random()\<close>, \<open>rnd\<close> the draw of \<^verbatim>\<open>random.choice\<close>. No statement of
  the method raises.
\<close>

definition eps_select_arm ::
  "EpsilonGreedy_Bandit \<Rightarrow> arm list \<Rightarrow> real \<Rightarrow> nat \<Rightarrow> arm option \<times> EpsilonGreedy_Bandit"
where
  "eps_select_arm b arms u rnd =
     (if arms = [] then (None, b)
      else if u < epsilon b then (Some (random_choice arms rnd), b)
      else
        (case eps_best_loop b arms None of
           (Some (best_arm, best_avg), b1) \<Rightarrow> (Some best_arm, b1)
         | (None, b1) \<Rightarrow> (Some (random_choice arms rnd), b1)))"

text \<open>\<^verbatim>\<open>EpsilonGreedy_Bandit.update\<close> (lines 152-156).\<close>

definition eps_update :: "EpsilonGreedy_Bandit \<Rightarrow> arm \<Rightarrow> real \<Rightarrow> EpsilonGreedy_Bandit" where
  "eps_update b a reward =
     (let aid = arm_id a
      in b\<lparr>eps_counts := (eps_counts b)(aid \<mapsto> dd_get (eps_counts b) 0 aid + 1),
           eps_rewards := (eps_rewards b)(aid \<mapsto> dd_get (eps_rewards b) [] aid @ [reward])\<rparr>)"

text \<open>\<^verbatim>\<open>EpsilonGreedy_Bandit.decay_epsilon\<close> (lines 158-160).\<close>

definition decay_epsilon :: "EpsilonGreedy_Bandit \<Rightarrow> EpsilonGreedy_Bandit" where
  "decay_epsilon b = b\<lparr>epsilon := max 0.1 (epsilon b * epsilon_decay b)\<rparr>"

section \<open>The placement system\<close>

record bounds =
  min_lat :: real
  max_lat :: real
  min_lon :: real
  max_lon :: real

record demand_center =
  dc_lat :: real
  dc_lon :: real
  dc_weight :: real
  dc_name :: string

text \<open>A station record of a placement, the dictionary built at lines 449-491.\<close>

record station =
  station_id :: string
  st_lat :: real
  st_lon :: real
  st_name :: string
  st_type :: string

record StationPlacementRL =
  num_stations :: int
  num_episodes :: int
  city_bounds :: bounds
  ucb_bandit :: UCB_Bandit
  epsilon_bandit :: EpsilonGreedy_Bandit
  demand_centers :: "demand_center list"
  episode_rewards :: "real list"
  best_placements :: "station list list"

text \<open>\<^verbatim>\<open>StationPlacementRL.__init__\<close> (lines 171-205).\<close>

definition StationPlacementRL_init :: "int \<Rightarrow> int \<Rightarrow> StationPlacementRL" where
  "StationPlacementRL_init n_stations n_episodes =
     \<lparr>num_stations = n_stations,
      num_episodes = n_episodes,
      city_bounds = \<lparr>min_lat = 20.20, max_lat = 20.40, min_lon = 85.70, max_lon = 85.95\<rparr>,
      ucb_bandit = UCB_Bandit_init 2.0,
      epsilon_bandit = EpsilonGreedy_Bandit_init 0.3 0.95,
      demand_centers =
        [\<lparr>dc_lat = 20.2961, dc_lon = 85.8245, dc_weight = 1.0, dc_name = ''City Center''\<rparr>,
         \<lparr>dc_lat = 20.2644, dc_lon = 85.8281, dc_weight = 0.9, dc_name = ''KIIT Area''\<rparr>,
         \<lparr>dc_lat = 20.3100, dc_lon = 85.8500, dc_weight = 0.8, dc_name = ''Patia IT Hub''\<rparr>,
         \<lparr>dc_lat = 20.2500, dc_lon = 85.8500, dc_weight = 0.7, dc_name = ''Railway Station''\<rparr>,
         \<lparr>dc_lat = 20.3000, dc_lon = 85.8800, dc_weight = 0.6, dc_name = ''Airport Area''\<rparr>],
      episode_rewards = [],
      best_placements = []\<rparr>"

subsection \<open>Geometry\<close>

text \<open>
  \<^verbatim>\<open>math.radians\<close> and \<^verbatim>\<open>math.atan2\<close> on the reals (no signed zeros).
\<close>

definition radians :: "real \<Rightarrow> real" where
  "radians x = x * pi / 180"

definition atan2 :: "real \<Rightarrow> real \<Rightarrow> real" where
  "atan2 y x =
     (if 0 < x then arctan (y / x)
      else if x < 0 then (if 0 \<le> y then arctan (y / x) + pi else arctan (y / x) - pi)
      else if 0 < y then pi / 2
      else if y < 0 then - (pi / 2)
      else 0)"

text \<open>
  \<^verbatim>\<open>_haversine_distance\<close> (lines 311-325); the method does not read \<^verbatim>\<open>self\<close>.
  \<open>haversine_a\<close> is the local \<^verbatim>\<open>a\<close>. \<^verbatim>\<open>math.sqrt\<close> raises on a negative
  argument; \<open>haversine_a_range\<close> below shows that \<open>a\<close> and \<open>1 - a\<close> are never
  negative on the reals, so the method always returns.
\<close>

definition haversine_a :: "real \<Rightarrow> real \<Rightarrow> real \<Rightarrow> real \<Rightarrow> real" where
  "haversine_a lat1 lon1 lat2 lon2 =
     (let lat1_rad = radians lat1;
          lat2_rad = radians lat2;
          dlat = radians (lat2 - lat1);
          dlon = radians (lon2 - lon1)
      in (sin (dlat / 2))\<^sup>2 + cos lat1_rad * cos lat2_rad * (sin (dlon / 2))\<^sup>2)"

definition haversine_distance :: "real \<Rightarrow> real \<Rightarrow> real \<Rightarrow> real \<Rightarrow> real" where
  "haversine_distance lat1 lon1 lat2 lon2 =
     (let R = 6371.0;
          a = haversine_a lat1 lon1 lat2 lon2;
          c = 2 * atan2 (sqrt a) (sqrt (1 - a))
      in R * c)"

abbreviation center_station_distance :: "demand_center \<Rightarrow> station \<Rightarrow> real" where
  "center_station_distance center s \<equiv>
     haversine_distance (dc_lat center) (dc_lon center) (st_lat s) (st_lon s)"

abbreviation station_distance :: "station \<Rightarrow> station \<Rightarrow> real" where
  "station_distance s1 s2 \<equiv> haversine_distance (st_lat s1) (st_lon s1) (st_lat s2) (st_lon s2)"

subsection \<open>Reward\<close>

text \<open>
  The inner loop of lines 285-291 and 523-529: \<^verbatim>\<open>min_dist\<close> starts at
  \<^verbatim>\<open>float('inf')\<close> and takes the minimum with the distance to every station in turn.
  The first station replaces the infinity, the others take the minimum of two reals.
\<close>

fun min_dist_loop :: "demand_center \<Rightarrow> station list \<Rightarrow> xreal \<Rightarrow> xreal" where
  "min_dist_loop center [] min_dist = min_dist"
| "min_dist_loop center (s # stations) PInf =
     min_dist_loop center stations (Fin (center_station_distance center s))"
| "min_dist_loop center (s # stations) (Fin m) =
     min_dist_loop center stations (Fin (min m (center_station_distance center s)))"

text \<open>
  Lines 283-292: the outer loop of \<^verbatim>\<open>calculate_reward\<close>. It runs only after the
  guard of line 279, on a non-empty placement \<open>s # stations\<close>, where the running minimum
  is finite after the first station; the weighted distance is added to the total.
\<close>

fun weighted_distance_loop :: "demand_center list \<Rightarrow> station \<Rightarrow> station list \<Rightarrow> real \<Rightarrow> real" where
  "weighted_distance_loop [] s stations total_distance = total_distance"
| "weighted_distance_loop (center # centers) s stations total_distance =
     (case min_dist_loop center (s # stations) PInf of
        Fin min_dist \<Rightarrow>
          weighted_distance_loop centers s stations (total_distance + min_dist * dc_weight center)
      | PInf \<Rightarrow> weighted_distance_loop centers s stations total_distance)"

text \<open>
  \<^verbatim>\<open>_calculate_coverage\<close> (lines 327-343). The inner loop stops at the first station
  within 2 km. The final division raises for an empty list of demand centers.
\<close>

fun within_2km :: "demand_center \<Rightarrow> station list \<Rightarrow> bool" where
  "within_2km center [] = False"
| "within_2km center (s # stations) =
     (if center_station_distance center s \<le> 2.0 then True else within_2km center stations)"

fun covered_centers_loop :: "demand_center list \<Rightarrow> station list \<Rightarrow> nat \<Rightarrow> nat" where
  "covered_centers_loop [] stations covered_centers = covered_centers"
| "covered_centers_loop (center # centers) stations covered_centers =
     covered_centers_loop centers stations
       (if within_2km center stations then covered_centers + 1 else covered_centers)"

definition calculate_coverage :: "StationPlacementRL \<Rightarrow> station list \<Rightarrow> error + real" where
  "calculate_coverage self stations =
     (if stations = [] then Inr 0.0
      else
        let covered_centers = covered_centers_loop (demand_centers self) stations 0
        in if length (demand_centers self) = 0 then Inl ZeroDivisionError
           else Inr (real covered_centers / real (length (demand_centers self))))"

text \<open>
  \<^verbatim>\<open>_calculate_spread\<close> (lines 345-371). The loops carry \<^verbatim>\<open>total_dist\<close> and
  \<^verbatim>\<open>count\<close> (here \<open>cnt\<close>); the inner loop runs over \<^verbatim>\<open>stations[i+1:]\<close>, the stations after
  \<open>s1\<close>.
\<close>

fun spread_inner_loop :: "station \<Rightarrow> station list \<Rightarrow> real \<times> nat \<Rightarrow> real \<times> nat" where
  "spread_inner_loop s1 [] acc = acc"
| "spread_inner_loop s1 (s2 # rest) (total_dist, cnt) =
     spread_inner_loop s1 rest (total_dist + station_distance s1 s2, cnt + 1)"

fun spread_outer_loop :: "station list \<Rightarrow> real \<times> nat \<Rightarrow> real \<times> nat" where
  "spread_outer_loop [] acc = acc"
| "spread_outer_loop (s1 # rest) acc = spread_outer_loop rest (spread_inner_loop s1 rest acc)"

definition calculate_spread :: "station list \<Rightarrow> real" where
  "calculate_spread stations =
     (if length stations < 2 then 0.0
      else
        (case spread_outer_loop stations (0.0, 0) of
           (total_dist, cnt) \<Rightarrow>
             let avg_dist = (if cnt > 0 then total_dist / real cnt else 0.0)
             in if avg_dist < 1.0 then 0.0
                else if avg_dist > 5.0 then 1.0
                else avg_dist / 5.0))"

text \<open>
  \<^verbatim>\<open>calculate_reward\<close> (lines 264-309). \<open>reward_avg_distance\<close> is the local
  \<^verbatim>\<open>avg_distance\<close> of lines 283-294; its division raises for an empty list of demand
  centers, before coverage and spread are computed.
\<close>

definition reward_avg_distance :: "StationPlacementRL \<Rightarrow> station \<Rightarrow> station list \<Rightarrow> error + real" where
  "reward_avg_distance self s stations =
     (let total_distance = weighted_distance_loop (demand_centers self) s stations 0.0
      in if length (demand_centers self) = 0 then Inl ZeroDivisionError
         else Inr (total_distance / real (length (demand_centers self))))"

fun calculate_reward :: "StationPlacementRL \<Rightarrow> station list \<Rightarrow> error + real" where
  "calculate_reward self [] = Inr (- 1000.0)"
| "calculate_reward self (s # stations) =
     (case reward_avg_distance self s stations of
        Inl e \<Rightarrow> Inl e
      | Inr avg_distance \<Rightarrow>
          (case calculate_coverage self (s # stations) of
             Inl e \<Rightarrow> Inl e
           | Inr coverage \<Rightarrow>
               let spread = calculate_spread (s # stations);
                   distance_score = - avg_distance * 10;
                   coverage_score = coverage * 100;
                   spread_score = spread * 50;
                   reward = distance_score + coverage_score + spread_score
               in Inr reward))"

subsection \<open>Candidate arms and materialized placements\<close>

text \<open>
  \<^verbatim>\<open>int(np.ceil(np.sqrt(self.num_stations)))\<close>: for a negative station count the
  square root is NaN and the conversion to \<^verbatim>\<open>int\<close> raises ValueError.
\<close>

definition grid_size_of :: "int \<Rightarrow> error + nat" where
  "grid_size_of n = (if n < 0 then Inl ValueError else Inr (nat \<lceil>sqrt (real_of_int n)\<rceil>))"

text \<open>\<^verbatim>\<open>np.clip(x, lo, hi)\<close>.\<close>

definition clip :: "real \<Rightarrow> real \<Rightarrow> real \<Rightarrow> real" where
  "clip x lo hi = min (max x lo) hi"

text \<open>
  The grid point of index \<open>i\<close> (lines 234-238 and 463-467). Inside the loops
  \<open>grid_size\<close> is positive, since the station count is.
\<close>

definition grid_lat :: "StationPlacementRL \<Rightarrow> nat \<Rightarrow> nat \<Rightarrow> real" where
  "grid_lat self grid_size i =
     (let lat_range = max_lat (city_bounds self) - min_lat (city_bounds self);
          row = i div grid_size
      in min_lat (city_bounds self) + (real row / real grid_size) * lat_range)"

definition grid_lon :: "StationPlacementRL \<Rightarrow> nat \<Rightarrow> nat \<Rightarrow> real" where
  "grid_lon self grid_size i =
     (let lon_range = max_lon (city_bounds self) - min_lon (city_bounds self);
          col = i mod grid_size
      in min_lon (city_bounds self) + (real col / real grid_size) * lon_range)"

text \<open>
  \<^verbatim>\<open>generate_candidate_placements\<close> (lines 207-262). \<open>rng\<close> is the sequence of
  \<^verbatim>\<open>random.random()\<close> draws the call consumes: two for every grid arm, then two for
  every random arm.
\<close>

definition strategic_arm :: "nat \<times> demand_center \<Rightarrow> arm" where
  "strategic_arm = (\<lambda>(i, center).
     \<lparr>arm_id = ''strategic_'' @ str_nat i, arm_lat = dc_lat center, arm_lon = dc_lon center,
      arm_type = ''strategic'', arm_name = dc_name center\<rparr>)"

definition grid_arm :: "StationPlacementRL \<Rightarrow> nat \<Rightarrow> (nat \<Rightarrow> real) \<Rightarrow> nat \<Rightarrow> arm" where
  "grid_arm self grid_size rng i =
     (let lat = grid_lat self grid_size i + random_uniform (- 0.01) 0.01 (rng (2 * i));
          lon = grid_lon self grid_size i + random_uniform (- 0.01) 0.01 (rng (2 * i + 1))
      in \<lparr>arm_id = ''grid_'' @ str_nat i,
          arm_lat = clip lat (min_lat (city_bounds self)) (max_lat (city_bounds self)),
          arm_lon = clip lon (min_lon (city_bounds self)) (max_lon (city_bounds self)),
          arm_type = ''grid'', arm_name = ''Grid Station '' @ str_nat (i + 1)\<rparr>)"

definition random_arm :: "StationPlacementRL \<Rightarrow> (nat \<Rightarrow> real) \<Rightarrow> nat \<Rightarrow> arm" where
  "random_arm self rng i =
     \<lparr>arm_id = ''random_'' @ str_nat i,
      arm_lat = random_uniform (min_lat (city_bounds self)) (max_lat (city_bounds self)) (rng (2 * i)),
      arm_lon = random_uniform (min_lon (city_bounds self)) (max_lon (city_bounds self)) (rng (2 * i + 1)),
      arm_type = ''random'', arm_name = ''Random Station '' @ str_nat (i + 1)\<rparr>"

definition generate_candidate_placements ::
  "StationPlacementRL \<Rightarrow> (nat \<Rightarrow> real) \<Rightarrow> error + arm list"
where
  "generate_candidate_placements self rng =
     (let strategic = map strategic_arm
            (enumerate 0 (slice_upto (demand_centers self) (num_stations self)))
      in case grid_size_of (num_stations self) of
           Inl e \<Rightarrow> Inl e
         | Inr grid_size \<Rightarrow>
             let n = nat (num_stations self);
                 grid = map (grid_arm self grid_size rng) [0..<n];
                 random = map (random_arm self (\<lambda>k. rng (2 * n + k))) [0..<n]
             in Inr (strategic @ grid @ random))"

text \<open>
  \<^verbatim>\<open>_create_placement_from_arm\<close> (lines 436-493). \<open>rng\<close> is the sequence of
  \<^verbatim>\<open>random.random()\<close> draws the call consumes; only the last branch draws, two
  numbers for every station. Any type other than \<^verbatim>\<open>'strategic'\<close> and
  \<^verbatim>\<open>'grid'\<close> takes the last branch.
\<close>

definition strategic_station :: "nat \<times> demand_center \<Rightarrow> station" where
  "strategic_station = (\<lambda>(i, center).
     \<lparr>station_id = ''ST'' @ str_nat_02d (i + 1), st_lat = dc_lat center, st_lon = dc_lon center,
      st_name = dc_name center, st_type = ''strategic''\<rparr>)"

definition grid_station :: "StationPlacementRL \<Rightarrow> nat \<Rightarrow> nat \<Rightarrow> station" where
  "grid_station self grid_size i =
     \<lparr>station_id = ''ST'' @ str_nat_02d (i + 1),
      st_lat = grid_lat self grid_size i,
      st_lon = grid_lon self grid_size i,
      st_name = ''Grid Station '' @ str_nat (i + 1), st_type = ''grid''\<rparr>"

definition random_station :: "StationPlacementRL \<Rightarrow> (nat \<Rightarrow> real) \<Rightarrow> nat \<Rightarrow> station" where
  "random_station self rng i =
     \<lparr>station_id = ''ST'' @ str_nat_02d (i + 1),
      st_lat = random_uniform (min_lat (city_bounds self)) (max_lat (city_bounds self)) (rng (2 * i)),
      st_lon = random_uniform (min_lon (city_bounds self)) (max_lon (city_bounds self)) (rng (2 * i + 1)),
      st_name = ''Random Station '' @ str_nat (i + 1), st_type = ''random''\<rparr>"

definition create_placement_from_arm ::
  "StationPlacementRL \<Rightarrow> arm \<Rightarrow> (nat \<Rightarrow> real) \<Rightarrow> error + station list"
where
  "create_placement_from_arm self a rng =
     (if arm_type a = ''strategic'' then
        Inr (map strategic_station
               (enumerate 0 (slice_upto (demand_centers self) (num_stations self))))
      else if arm_type a = ''grid'' then
        (case grid_size_of (num_stations self) of
           Inl e \<Rightarrow> Inl e
         | Inr grid_size \<Rightarrow>
             Inr (map (grid_station self grid_size) [0..<nat (num_stations self)]))
      else
        Inr (map (random_station self rng) [0..<nat (num_stations self)]))"

subsection \<open>Result export\<close>

text \<open>
  \<^verbatim>\<open>_calculate_avg_distance_to_demand\<close> (lines 519-531). For an empty list of
  stations the running minimum stays \<^verbatim>\<open>float('inf')\<close>, and so does the total.
\<close>

fun xadd :: "xreal \<Rightarrow> xreal \<Rightarrow> xreal" where
  "xadd (Fin a) (Fin b) = Fin (a + b)"
| "xadd _ _ = PInf"

fun xdiv :: "xreal \<Rightarrow> nat \<Rightarrow> xreal" where
  "xdiv (Fin a) n = Fin (a / real n)"
| "xdiv PInf n = PInf"

fun total_distance_loop :: "demand_center list \<Rightarrow> station list \<Rightarrow> xreal \<Rightarrow> xreal" where
  "total_distance_loop [] stations tot = tot"
| "total_distance_loop (center # centers) stations tot =
     total_distance_loop centers stations (xadd tot (min_dist_loop center stations PInf))"

definition calculate_avg_distance_to_demand :: "StationPlacementRL \<Rightarrow> station list \<Rightarrow> error + xreal" where
  "calculate_avg_distance_to_demand self stations =
     (let tot = total_distance_loop (demand_centers self) stations (Fin 0.0)
      in if length (demand_centers self) = 0 then Inl ZeroDivisionError
         else Inr (xdiv tot (length (demand_centers self))))"

text \<open>
  \<^verbatim>\<open>save_results\<close> (lines 495-517): the dictionary that is written to the file. The
  file system is not modelled; the entries are evaluated in the order of the literal.
\<close>

record metrics =
  coverage :: real
  avg_distance :: xreal
  spread :: real

record results =
  r_city :: string
  r_algorithm :: string
  r_num_stations :: nat
  r_num_episodes :: int
  r_episode_rewards :: "real list"
  r_final_reward :: real
  r_stations :: "station list"
  r_metrics :: metrics

fun py_max :: "real list \<Rightarrow> real" where
  "py_max [] = 0"
| "py_max (x # xs) = fold (\<lambda>y m. if y > m then y else m) xs x"

definition save_results :: "StationPlacementRL \<Rightarrow> station list \<Rightarrow> error + results" where
  "save_results self placement =
     (case calculate_coverage self placement of
        Inl e \<Rightarrow> Inl e
      | Inr cov \<Rightarrow>
          (case calculate_avg_distance_to_demand self placement of
             Inl e \<Rightarrow> Inl e
           | Inr avg \<Rightarrow>
               Inr \<lparr>r_city = ''Bhubaneswar'',
                    r_algorithm = ''RL (Multi-Armed Bandit)'',
                    r_num_stations = length placement,
                    r_num_episodes = num_episodes self,
                    r_episode_rewards = episode_rewards self,
                    r_final_reward =
                      (if episode_rewards self \<noteq> [] then py_max (episode_rewards self) else 0),
                    r_stations = placement,
                    r_metrics = \<lparr>coverage = cov, avg_distance = avg,
                                 spread = calculate_spread placement\<rparr>\<rparr>))"

subsection \<open>The optimization loop\<close>

text \<open>
  The random draws of one episode: the draw of \<^verbatim>\<open>random.random()\<close> in the
  epsilon-greedy selection, the draw of \<^verbatim>\<open>random.choice\<close> of the selection, and the
  draws of \<^verbatim>\<open>random.uniform\<close> of the materialization.
\<close>

record episode_draws =
  draw_random :: real
  draw_choice :: nat
  draw_uniform :: "nat \<Rightarrow> real"

text \<open>
  Lines 391-394 and 404: the bandit is the UCB bandit for \<^verbatim>\<open>'ucb'\<close> and the
  epsilon-greedy bandit for every other algorithm name.
\<close>

definition bandit_select ::
  "string \<Rightarrow> StationPlacementRL \<Rightarrow> arm list \<Rightarrow> episode_draws \<Rightarrow> error + (arm option \<times> StationPlacementRL)"
where
  "bandit_select algorithm self candidates d =
     (if algorithm = ''ucb'' then
        (case ucb_select_arm (ucb_bandit self) candidates (draw_choice d) of
           (Inl e, b) \<Rightarrow> Inl e
         | (Inr selected_arm, b) \<Rightarrow> Inr (selected_arm, self\<lparr>ucb_bandit := b\<rparr>))
      else
        (case eps_select_arm (epsilon_bandit self) candidates (draw_random d) (draw_choice d) of
           (selected_arm, b) \<Rightarrow> Inr (selected_arm, self\<lparr>epsilon_bandit := b\<rparr>)))"

text \<open>Line 415.\<close>

definition bandit_update :: "string \<Rightarrow> StationPlacementRL \<Rightarrow> arm \<Rightarrow> real \<Rightarrow> StationPlacementRL" where
  "bandit_update algorithm self a reward =
     (if algorithm = ''ucb'' then self\<lparr>ucb_bandit := ucb_update (ucb_bandit self) a reward\<rparr>
      else self\<lparr>epsilon_bandit := eps_update (epsilon_bandit self) a reward\<rparr>)"

text \<open>
  Lines 400-428: one episode. The state is the system and the best placement with its
  reward (\<open>None\<close> for \<^verbatim>\<open>None\<close> and \<^verbatim>\<open>-inf\<close>, which every reward exceeds).
  \<^verbatim>\<open>_create_placement_from_arm(None)\<close> raises TypeError. Logging is not modelled.
\<close>

definition episode ::
  "string \<Rightarrow> arm list \<Rightarrow> episode_draws \<Rightarrow> StationPlacementRL \<times> (station list \<times> real) option \<Rightarrow>
   error + (StationPlacementRL \<times> (station list \<times> real) option)"
where
  "episode algorithm candidates d = (\<lambda>(self, best).
     case bandit_select algorithm self candidates d of
       Inl e \<Rightarrow> Inl e
     | Inr (None, self1) \<Rightarrow> Inl TypeError
     | Inr (Some selected_arm, self1) \<Rightarrow>
         (case create_placement_from_arm self1 selected_arm (draw_uniform d) of
            Inl e \<Rightarrow> Inl e
          | Inr placement \<Rightarrow>
              (case calculate_reward self1 placement of
                 Inl e \<Rightarrow> Inl e
               | Inr reward \<Rightarrow>
                   let self2 = bandit_update algorithm self1 selected_arm reward;
                       best' = (case best of
                                  None \<Rightarrow> Some (placement, reward)
                                | Some (best_placement, best_reward) \<Rightarrow>
                                    if reward > best_reward then Some (placement, reward)
                                    else best);
                       self3 = self2\<lparr>episode_rewards := episode_rewards self2 @ [reward]\<rparr>;
                       self4 = (if algorithm = ''epsilon_greedy''
                                then self3\<lparr>epsilon_bandit := decay_epsilon (epsilon_bandit self3)\<rparr>
                                else self3)
                   in Inr (self4, best'))))"

fun episodes_loop ::
  "string \<Rightarrow> arm list \<Rightarrow> episode_draws list \<Rightarrow> StationPlacementRL \<times> (station list \<times> real) option \<Rightarrow>
   error + (StationPlacementRL \<times> (station list \<times> real) option)"
where
  "episodes_loop algorithm candidates [] st = Inr st"
| "episodes_loop algorithm candidates (d # ds) st =
     (case episode algorithm candidates d st of
        Inl e \<Rightarrow> Inl e
      | Inr st' \<Rightarrow> episodes_loop algorithm candidates ds st')"

text \<open>
  \<^verbatim>\<open>optimize_placement\<close> (lines 373-434). \<open>rng\<close> is the sequence of draws of the
  candidate generation, \<open>draws\<close> gives the draws of every episode. After no episode
  \<^verbatim>\<open>best_placement\<close> is \<^verbatim>\<open>None\<close> and \<^verbatim>\<open>len(best_placement)\<close> at line 432 raises
  TypeError.
\<close>

definition optimize_placement ::
  "StationPlacementRL \<Rightarrow> string \<Rightarrow> (nat \<Rightarrow> real) \<Rightarrow> (nat \<Rightarrow> episode_draws) \<Rightarrow>
   error + (station list \<times> StationPlacementRL)"
where
  "optimize_placement self algorithm rng draws =
     (case generate_candidate_placements self rng of
        Inl e \<Rightarrow> Inl e
      | Inr candidates \<Rightarrow>
          (case episodes_loop algorithm candidates
                  (map draws [0..<nat (num_episodes self)]) (self, None) of
             Inl e \<Rightarrow> Inl e
           | Inr (self', None) \<Rightarrow> Inl TypeError
           | Inr (self', Some (best_placement, best_reward)) \<Rightarrow> Inr (best_placement, self')))"

section \<open>Specification-level notions\<close>

text \<open>
  The bookkeeping invariant of the UCB bandit: the dictionary of counts is finite, the
  total number of pulls is the sum of the stored counts, and for every arm id the count
  that is read equals the length of the reward history that is read.
\<close>

definition ucb_invariant :: "UCB_Bandit \<Rightarrow> bool" where
  "ucb_invariant b \<longleftrightarrow>
     finite (dom (ucb_counts b))
     \<and> ucb_total_pulls b = (\<Sum>k\<in>dom (ucb_counts b). dd_get (ucb_counts b) 0 k)
     \<and> (\<forall>k. dd_get (ucb_counts b) 0 k = length (dd_get (ucb_rewards b) [] k))"

text \<open>A sequence of \<^verbatim>\<open>update\<close> calls, in order.\<close>

definition ucb_updates :: "UCB_Bandit \<Rightarrow> (arm \<times> real) list \<Rightarrow> UCB_Bandit" where
  "ucb_updates b ups = fold (\<lambda>(a, reward) b. ucb_update b a reward) ups b"

text \<open>
  Selection followed by an update with the observed reward, repeated, as lines 404 and
  415 of \<^verbatim>\<open>optimize_placement\<close> do. A step is the random draw of the selection and
  the reward that is observed. The trace holds, for every step, the bandit before the
  selection and the selected arm. \<^verbatim>\<open>update(None, reward)\<close> raises TypeError.
\<close>

fun ucb_run :: "UCB_Bandit \<Rightarrow> arm list \<Rightarrow> (nat \<times> real) list \<Rightarrow> error + (UCB_Bandit \<times> arm) list" where
  "ucb_run b arms [] = Inr []"
| "ucb_run b arms ((rnd, reward) # steps) =
     (case ucb_select_arm b arms rnd of
        (Inl e, b1) \<Rightarrow> Inl e
      | (Inr None, b1) \<Rightarrow> Inl TypeError
      | (Inr (Some a), b1) \<Rightarrow>
          (case ucb_run (ucb_update b1 a reward) arms steps of
             Inl e \<Rightarrow> Inl e
           | Inr trace \<Rightarrow> Inr ((b, a) # trace)))"

text \<open>
  The quantities of the reward function as the specification words them. The distance
  from a demand center to the nearest station of a non-empty placement:
\<close>

definition nearest_station_distance :: "demand_center \<Rightarrow> station list \<Rightarrow> real" where
  "nearest_station_distance center placement =
     Min (center_station_distance center ` set placement)"

text \<open>
  The demand-weighted distance term: the sum over the demand centers of the nearest
  distance times the weight of the center, divided by the number of demand centers.
\<close>

definition spec_avg_distance :: "StationPlacementRL \<Rightarrow> station list \<Rightarrow> real" where
  "spec_avg_distance self placement =
     (\<Sum>center\<leftarrow>demand_centers self.
        nearest_station_distance center placement * dc_weight center)
     / real (length (demand_centers self))"

text \<open>
  The coverage: the fraction of the demand centers that have a station within 2.0 km.
\<close>

definition spec_coverage :: "StationPlacementRL \<Rightarrow> station list \<Rightarrow> real" where
  "spec_coverage self placement =
     real (length (filter (\<lambda>center. \<exists>s\<in>set placement. center_station_distance center s \<le> 2.0)
                     (demand_centers self)))
     / real (length (demand_centers self))"

text \<open>
  The plain mean over the demand centers of the nearest distance, without the weights.
\<close>

definition unweighted_avg_distance :: "StationPlacementRL \<Rightarrow> station list \<Rightarrow> real" where
  "unweighted_avg_distance self placement =
     (\<Sum>center\<leftarrow>demand_centers self. nearest_station_distance center placement)
     / real (length (demand_centers self))"

text \<open>
  The mean distance over all unordered pairs of stations of a placement.
\<close>

definition mean_pairwise_distance :: "station list \<Rightarrow> real" where
  "mean_pairwise_distance stations =
     (\<Sum>i<length stations. \<Sum>j = i + 1..<length stations.
        station_distance (stations ! i) (stations ! j))
     / real (length stations choose 2)"

section \<open>Properties of the bandit policies\<close>

subsection \<open>Selection on an empty pool\<close>

text \<open>
  Claim C3, amended. Both policies open with the guard
  \<^verbatim>\<open>if not arms: return None\<close>: selecting from an empty pool returns
  \<^verbatim>\<open>None\<close> as an ordinary value, for every bandit state and every random draw, and
  leaves the bandit unchanged.
\<close>

theorem select_arm_empty_pool:
  "ucb_select_arm b [] rnd = (Inr None, b) \<and> eps_select_arm b' [] u rnd' = (None, b')"
  by (simp add: ucb_select_arm_def eps_select_arm_def)

theorem select_arm_empty_pool_witness:
  "ucb_select_arm (UCB_Bandit_init 2.0) [] 7 = (Inr None, UCB_Bandit_init 2.0)
   \<and> eps_select_arm (EpsilonGreedy_Bandit_init 0.3 0.95) [] 0.5 7 =
       (None, EpsilonGreedy_Bandit_init 0.3 0.95)"
  by (rule select_arm_empty_pool)

text \<open>
  Claim C3 says that the selection fails with a defined error. At the freshly constructed
  bandits the value of the call is \<^verbatim>\<open>None\<close>, not an exception.
\<close>

theorem select_arm_empty_pool_counterexample:
  "fst (ucb_select_arm (UCB_Bandit_init 2.0) [] 0) = Inr None
   \<and> fst (eps_select_arm (EpsilonGreedy_Bandit_init 0.3 0.95) [] 0 0) = None"
  by (simp add: ucb_select_arm_def eps_select_arm_def)

subsection \<open>Decay of epsilon\<close>

lemma decay_epsilon_simps:
  "epsilon (decay_epsilon b) = max 0.1 (epsilon b * epsilon_decay b)"
  "epsilon_decay (decay_epsilon b) = epsilon_decay b"
  "initial_epsilon (decay_epsilon b) = initial_epsilon b"
  by (simp_all add: decay_epsilon_def)

lemma decay_funpow_decay: "epsilon_decay ((decay_epsilon ^^ n) b) = epsilon_decay b"
  by (induction n) (simp_all add: decay_epsilon_simps)

lemma decay_funpow_floor: "1 \<le> n \<Longrightarrow> 0.1 \<le> epsilon ((decay_epsilon ^^ n) b)"
  by (cases n) (simp_all add: decay_epsilon_simps)

lemma decay_closed_form_ge:
  assumes "0 \<le> epsilon_decay b" "0.1 \<le> epsilon b"
  shows "epsilon ((decay_epsilon ^^ n) b) = max 0.1 (epsilon b * epsilon_decay b ^ n)"
proof (induction n)
  case 0
  then show ?case using assms by simp
next
  case (Suc n)
  let ?d = "epsilon_decay b" and ?e = "epsilon b"
  have "epsilon ((decay_epsilon ^^ Suc n) b) = max 0.1 (max 0.1 (?e * ?d ^ n) * ?d)"
    using Suc by (simp add: decay_epsilon_simps decay_funpow_decay)
  also have "max 0.1 (?e * ?d ^ n) * ?d = max (0.1 * ?d) (?e * ?d ^ n * ?d)"
    using assms(1) by (simp add: max_mult_distrib_right)
  also have "max 0.1 (max (0.1 * ?d) (?e * ?d ^ n * ?d)) = max 0.1 (?e * ?d ^ Suc n)"
  proof -
    define x where "x = ?e * ?d ^ n * ?d"
    have x: "?e * ?d ^ Suc n = x" by (simp add: x_def)
    have "0.1 * ?d \<le> 0.1 \<or> 0.1 * ?d \<le> x"
    proof (cases "?d \<le> 1")
      case True
      then show ?thesis by simp
    next
      case False
      then have "1 \<le> ?d ^ n" by simp
      then have "0.1 * 1 \<le> ?e * ?d ^ n" using assms(2)
        by (intro mult_mono) simp_all
      then have "0.1 * ?d \<le> ?e * ?d ^ n * ?d" using assms(1)
        by (intro mult_right_mono) simp_all
      then show ?thesis by (simp add: x_def)
    qed
    then have "max 0.1 (max (0.1 * ?d) x) = max 0.1 x" by (auto simp: max_def)
    then show ?thesis unfolding x x_def .
  qed
  finally show ?case .
qed

lemma decay_closed_form_le:
  assumes "0 \<le> epsilon_decay b" "epsilon_decay b \<le> 1" "1 \<le> n"
  shows "epsilon ((decay_epsilon ^^ n) b) = max 0.1 (epsilon b * epsilon_decay b ^ n)"
  using assms(3)
proof (induction n rule: nat_induct_at_least)
  case base
  then show ?case by (simp add: decay_epsilon_simps)
next
  case (Suc n)
  let ?d = "epsilon_decay b" and ?e = "epsilon b"
  have "epsilon ((decay_epsilon ^^ Suc n) b) = max 0.1 (max 0.1 (?e * ?d ^ n) * ?d)"
    using Suc by (simp add: decay_epsilon_simps decay_funpow_decay)
  also have "max 0.1 (?e * ?d ^ n) * ?d = max (0.1 * ?d) (?e * ?d ^ n * ?d)"
    using assms(1) by (simp add: max_mult_distrib_right)
  also have "max 0.1 (max (0.1 * ?d) (?e * ?d ^ n * ?d)) = max 0.1 (?e * ?d ^ Suc n)"
  proof -
    define x where "x = ?e * ?d ^ n * ?d"
    have x: "?e * ?d ^ Suc n = x" by (simp add: x_def)
    have "0.1 * ?d \<le> 0.1" using assms(2) by simp
    then have "max 0.1 (max (0.1 * ?d) x) = max 0.1 x" by (auto simp: max_def)
    then show ?thesis unfolding x x_def .
  qed
  finally show ?case .
qed

text \<open>
  Claim C9, amended. After \<open>n\<close> calls of \<^verbatim>\<open>decay_epsilon\<close> on a bandit constructed
  with \<open>eps\<close> and \<open>decay\<close>, epsilon is \<open>max 0.1 (eps * decay ^ n)\<close> provided the decay
  factor is not negative and either the initial epsilon is at least 0.1, or the factor
  is at most 1 and at least one call was made. After at least one call epsilon is never
  below the floor 0.1, for every initial epsilon and factor.
\<close>

theorem decay_epsilon_closed_form:
  "(0 \<le> decay \<and> (0.1 \<le> eps \<or> (decay \<le> 1 \<and> 1 \<le> n)) \<longrightarrow>
      epsilon ((decay_epsilon ^^ n) (EpsilonGreedy_Bandit_init eps decay)) = max 0.1 (eps * decay ^ n))
   \<and> (1 \<le> n \<longrightarrow> 0.1 \<le> epsilon ((decay_epsilon ^^ n) (EpsilonGreedy_Bandit_init eps decay)))"
  using decay_closed_form_ge [of "EpsilonGreedy_Bandit_init eps decay" n]
    decay_closed_form_le [of "EpsilonGreedy_Bandit_init eps decay" n]
    decay_funpow_floor [of n "EpsilonGreedy_Bandit_init eps decay"]
  by (auto simp: EpsilonGreedy_Bandit_init_def)

theorem decay_epsilon_closed_form_witness:
  "epsilon ((decay_epsilon ^^ 2) (EpsilonGreedy_Bandit_init 0.3 0.5)) = 0.1
   \<and> epsilon ((decay_epsilon ^^ 2) (EpsilonGreedy_Bandit_init 0.3 0.95)) = 0.27075"
  using decay_epsilon_closed_form [of "0.5" "0.3" 2] decay_epsilon_closed_form [of "0.95" "0.3" 2]
  by (simp add: power2_eq_square)

text \<open>
  The closed form of claim C9 fails without these conditions: before any call an
  initial epsilon below the floor is not raised to it; a factor above 1 grows epsilon
  again from the floor; a negative factor is clamped at every call, not once at the end.
\<close>

theorem decay_epsilon_closed_form_counterexample:
  "epsilon ((decay_epsilon ^^ 0) (EpsilonGreedy_Bandit_init 0.05 0.95)) \<noteq> max 0.1 (0.05 * 0.95 ^ 0)
   \<and> epsilon ((decay_epsilon ^^ 2) (EpsilonGreedy_Bandit_init 0.01 2)) \<noteq> max 0.1 (0.01 * 2 ^ 2)
   \<and> epsilon ((decay_epsilon ^^ 2) (EpsilonGreedy_Bandit_init 1 (- 1))) \<noteq> max 0.1 (1 * (- 1) ^ 2)"
  by (simp add: numeral_2_eq_2 decay_epsilon_def EpsilonGreedy_Bandit_init_def)

subsection \<open>Bookkeeping of the UCB bandit\<close>

lemma dd_get_upd: "dd_get (m(k \<mapsto> v)) d k' = (if k' = k then v else dd_get m d k')"
  by (simp add: dd_get_def)

lemma dd_get_touch: "dd_get (dd_touch m d k) d k' = dd_get m d k'"
  by (simp add: dd_get_def dd_touch_def split: option.splits)

lemma dom_dd_touch: "dom (dd_touch m d k) = insert k (dom m)"
  by (auto simp: dd_touch_def split: option.splits)

lemma dd_get_touch_all:
  "dd_get (fold (\<lambda>a m. dd_touch m d (f a)) xs m) d k = dd_get m d k"
  by (induction xs arbitrary: m) (simp_all add: dd_get_touch)

lemma dom_touch_all:
  "dom (fold (\<lambda>a m. dd_touch m d (f a)) xs m) = f ` set xs \<union> dom m"
  by (induction xs arbitrary: m) (auto simp: dom_dd_touch)

lemma dd_get_notin_dom: "k \<notin> dom m \<Longrightarrow> dd_get m d k = d"
  by (auto simp: dd_get_def split: option.splits)

lemma ucb_invariant_init: "ucb_invariant (UCB_Bandit_init c)"
  by (simp add: ucb_invariant_def UCB_Bandit_init_def dd_get_def)

lemma sum_counts_update:
  assumes "finite (dom m)"
  shows "(\<Sum>k'\<in>dom (m(k \<mapsto> dd_get m 0 k + 1)). dd_get (m(k \<mapsto> dd_get m 0 k + 1)) (0::nat) k')
         = (\<Sum>k'\<in>dom m. dd_get m 0 k') + 1"
proof -
  define m' where "m' = m(k \<mapsto> dd_get m 0 k + 1)"
  have rest: "(\<Sum>k'\<in>dom m - {k}. dd_get m' 0 k') = (\<Sum>k'\<in>dom m - {k}. dd_get m 0 k')"
    by (rule sum.cong) (simp_all add: dd_get_upd m'_def)
  have at_k: "dd_get m' 0 k = dd_get m 0 k + 1"
    by (simp add: m'_def dd_get_upd)
  have "dom m' = insert k (dom m)" by (simp add: m'_def)
  then have "(\<Sum>k'\<in>dom m'. dd_get m' 0 k') = dd_get m' 0 k + (\<Sum>k'\<in>dom m - {k}. dd_get m' 0 k')"
    using assms by (simp only: sum.insert_remove)
  also have "\<dots> = dd_get m 0 k + (\<Sum>k'\<in>dom m - {k}. dd_get m 0 k') + 1"
    by (simp only: rest at_k)
  also have "dd_get m 0 k + (\<Sum>k'\<in>dom m - {k}. dd_get m 0 k') = (\<Sum>k'\<in>dom m. dd_get m 0 k')"
  proof (cases "k \<in> dom m")
    case True
    then show ?thesis using assms by (simp add: sum.remove)
  next
    case False
    then have "dom m - {k} = dom m" by auto
    then show ?thesis using False by (simp add: dd_get_notin_dom)
  qed
  finally show ?thesis unfolding m'_def .
qed

lemma ucb_update_fields:
  "ucb_counts (ucb_update b a reward) =
     (ucb_counts b)(arm_id a \<mapsto> dd_get (ucb_counts b) 0 (arm_id a) + 1)"
  "ucb_rewards (ucb_update b a reward) =
     (ucb_rewards b)(arm_id a \<mapsto> dd_get (ucb_rewards b) [] (arm_id a) @ [reward])"
  "ucb_total_pulls (ucb_update b a reward) = ucb_total_pulls b + 1"
  "ucb_c (ucb_update b a reward) = ucb_c b"
  by (simp_all add: ucb_update_def Let_def)

lemma ucb_invariant_update:
  assumes "ucb_invariant b"
  shows "ucb_invariant (ucb_update b a reward)"
proof -
  have fin: "finite (dom (ucb_counts b))"
    and tot: "ucb_total_pulls b = (\<Sum>k\<in>dom (ucb_counts b). dd_get (ucb_counts b) 0 k)"
    and len: "\<And>k. dd_get (ucb_counts b) 0 k = length (dd_get (ucb_rewards b) [] k)"
    using assms by (simp_all add: ucb_invariant_def)
  let ?b' = "ucb_update b a reward"
  have 1: "finite (dom (ucb_counts ?b'))"
    using fin by (simp add: ucb_update_fields)
  have 2: "ucb_total_pulls ?b' = (\<Sum>k\<in>dom (ucb_counts ?b'). dd_get (ucb_counts ?b') 0 k)"
    unfolding ucb_update_fields sum_counts_update [OF fin] tot ..
  have 3: "dd_get (ucb_counts ?b') 0 k = length (dd_get (ucb_rewards ?b') [] k)" for k
    by (simp add: ucb_update_fields dd_get_upd len)
  show ?thesis
    unfolding ucb_invariant_def using 1 2 3 by blast
qed

lemma ucb_invariant_updates: "ucb_invariant b \<Longrightarrow> ucb_invariant (ucb_updates b ups)"
  unfolding ucb_updates_def
  by (induction ups arbitrary: b) (auto simp: ucb_invariant_update)

text \<open>
  Claim C10: the invariant holds for the bandit as constructed, every update preserves
  it, and so it holds after every sequence of updates.
\<close>

theorem ucb_invariant_holds:
  "ucb_invariant (UCB_Bandit_init c)
   \<and> (ucb_invariant b \<longrightarrow> ucb_invariant (ucb_update b a reward))
   \<and> ucb_invariant (ucb_updates (UCB_Bandit_init c) ups)"
  by (simp add: ucb_invariant_init ucb_invariant_update ucb_invariant_updates)

theorem ucb_invariant_holds_witness:
  "ucb_invariant
     (ucb_update (UCB_Bandit_init 2.0)
        \<lparr>arm_id = ''grid_0'', arm_lat = 20.2, arm_lon = 85.7, arm_type = ''grid'',
         arm_name = ''Grid Station 1''\<rparr> 1.5)
   \<and> ucb_invariant
       (ucb_updates (UCB_Bandit_init 2.0)
          [(\<lparr>arm_id = ''grid_0'', arm_lat = 20.2, arm_lon = 85.7, arm_type = ''grid'',
             arm_name = ''Grid Station 1''\<rparr>, 1.5),
           (\<lparr>arm_id = ''random_3'', arm_lat = 20.3, arm_lon = 85.8, arm_type = ''random'',
             arm_name = ''Random Station 4''\<rparr>, - 2),
           (\<lparr>arm_id = ''grid_0'', arm_lat = 20.2, arm_lon = 85.7, arm_type = ''grid'',
             arm_name = ''Grid Station 1''\<rparr>, 4)])"
  using ucb_invariant_holds [of "2.0" "UCB_Bandit_init 2.0"]
  by blast

subsection \<open>The first round of UCB selections\<close>

lemma random_choice_in_set: "xs \<noteq> [] \<Longrightarrow> random_choice xs k \<in> set xs"
  by (simp add: random_choice_def)

lemma untried_arms_cong:
  "(\<And>k. dd_get (ucb_counts b') 0 k = dd_get (ucb_counts b) 0 k) \<Longrightarrow>
   untried_arms b' arms = untried_arms b arms"
  by (simp add: untried_arms_def)

lemma ucb_select_arm_untried:
  assumes "untried_arms b arms \<noteq> []"
  shows "\<exists>b1. ucb_select_arm b arms rnd = (Inr (Some (random_choice (untried_arms b arms) rnd)), b1)
           \<and> (\<forall>k. dd_get (ucb_counts b1) 0 k = dd_get (ucb_counts b) 0 k)"
proof -
  define b1 where
    "b1 = b\<lparr>ucb_counts := fold (\<lambda>a m. dd_touch m 0 (arm_id a)) arms (ucb_counts b)\<rparr>"
  have same: "dd_get (ucb_counts b1) 0 k = dd_get (ucb_counts b) 0 k" for k
    by (simp add: b1_def dd_get_touch_all)
  then have u: "untried_arms b1 arms = untried_arms b arms"
    by (rule untried_arms_cong)
  have ne: "arms \<noteq> []" using assms by (auto simp: untried_arms_def)
  have "ucb_select_arm b arms rnd = (Inr (Some (random_choice (untried_arms b arms) rnd)), b1)"
    using ne assms u unfolding ucb_select_arm_def Let_def b1_def [symmetric] by simp
  then show ?thesis using same by blast
qed

lemma filter_other_ids:
  assumes "distinct (map f xs)" "a \<in> set xs"
  shows "filter (\<lambda>x. f x \<noteq> f a) xs = remove1 a xs"
  using assms
proof (induction xs)
  case Nil
  then show ?case by simp
next
  case (Cons x xs)
  show ?case
  proof (cases "x = a")
    case True
    then have "f a \<notin> f ` set xs" using Cons.prems(1) by simp
    then have "\<forall>y\<in>set xs. f y \<noteq> f a" by (metis image_eqI)
    then have "filter (\<lambda>x. f x \<noteq> f a) xs = xs" by (simp add: filter_id_conv)
    then show ?thesis using True by simp
  next
    case False
    then have "a \<in> set xs" using Cons.prems(2) by simp
    moreover have "f x \<noteq> f a" using Cons.prems(1) \<open>a \<in> set xs\<close> by auto
    ultimately show ?thesis using Cons False by simp
  qed
qed

lemma untried_arms_after_update:
  assumes "\<And>k. dd_get (ucb_counts b1) 0 k = dd_get (ucb_counts b) 0 k"
  shows "untried_arms (ucb_update b1 a reward) arms =
         filter (\<lambda>x. arm_id x \<noteq> arm_id a) (untried_arms b arms)"
  unfolding untried_arms_def filter_filter
  by (rule filter_cong) (auto simp: ucb_update_fields dd_get_upd assms)

lemma distinct_ids_untried:
  "distinct (map arm_id arms) \<Longrightarrow> distinct (map arm_id (untried_arms b arms))"
  by (simp add: untried_arms_def distinct_map_filter)

lemma ucb_run_untried:
  assumes "distinct (map arm_id arms)" "length steps = length (untried_arms b arms)"
  shows "\<exists>trace. ucb_run b arms steps = Inr trace
           \<and> mset (map snd trace) = mset (untried_arms b arms)
           \<and> list_all (\<lambda>(b', a). untried_arms b' arms \<noteq> [] \<and> a \<in> set (untried_arms b' arms)) trace"
  using assms(2)
proof (induction steps arbitrary: b)
  case Nil
  then show ?case by simp
next
  case (Cons step steps)
  obtain rnd reward where step: "step = (rnd, reward)" by (cases step)
  let ?u = "untried_arms b arms"
  let ?a = "random_choice ?u rnd"
  have ne: "?u \<noteq> []" using Cons.prems by auto
  obtain b1 where sel: "ucb_select_arm b arms rnd = (Inr (Some ?a), b1)"
    and same: "\<And>k. dd_get (ucb_counts b1) 0 k = dd_get (ucb_counts b) 0 k"
    using ucb_select_arm_untried [OF ne] by blast
  have a_in: "?a \<in> set ?u" using ne by (rule random_choice_in_set)
  have u': "untried_arms (ucb_update b1 ?a reward) arms = remove1 ?a ?u"
    using untried_arms_after_update [OF same]
      filter_other_ids [OF distinct_ids_untried [OF assms(1)] a_in] by simp
  have "length steps = length (untried_arms (ucb_update b1 ?a reward) arms)"
    using Cons.prems a_in by (simp add: u' length_remove1)
  from Cons.IH [OF this] obtain trace where
    run: "ucb_run (ucb_update b1 ?a reward) arms steps = Inr trace"
    and sel_all: "mset (map snd trace) = mset (remove1 ?a ?u)"
    and branch: "list_all (\<lambda>(b', a). untried_arms b' arms \<noteq> [] \<and> a \<in> set (untried_arms b' arms)) trace"
    unfolding u' by blast
  have "ucb_run b arms (step # steps) = Inr ((b, ?a) # trace)"
    by (simp add: step sel run)
  moreover have "mset (map snd ((b, ?a) # trace)) = mset ?u"
    using sel_all a_in by simp
  moreover have "list_all (\<lambda>(b', a). untried_arms b' arms \<noteq> [] \<and> a \<in> set (untried_arms b' arms))
                   ((b, ?a) # trace)"
    using branch ne a_in by simp
  ultimately show ?case by blast
qed

lemma untried_arms_init: "untried_arms (UCB_Bandit_init c) arms = arms"
  by (simp add: untried_arms_def UCB_Bandit_init_def dd_get_def)

text \<open>
  Claim C5: for a pool of \<open>k\<close> arms with pairwise distinct ids and a freshly
  constructed UCB bandit, \<open>k\<close> rounds of selection and update succeed for every
  sequence of random draws and rewards; the selected arms are the arms of the pool, each
  exactly once; and at every one of these selections the list of untried arms was not
  empty, so the method returned at line 59 with an untried arm, before the UCB values
  of lines 62-72 are computed.
\<close>

theorem ucb_first_selections:
  assumes "distinct (map arm_id arms)" "length steps = length arms"
  shows "\<exists>trace. ucb_run (UCB_Bandit_init c) arms steps = Inr trace
           \<and> mset (map snd trace) = mset arms
           \<and> list_all (\<lambda>(b, a). untried_arms b arms \<noteq> [] \<and> a \<in> set (untried_arms b arms)) trace"
  using ucb_run_untried [of arms steps "UCB_Bandit_init c"] assms
  by (simp add: untried_arms_init)

theorem ucb_first_selections_witness:
  "\<exists>trace.
     ucb_run (UCB_Bandit_init 2.0)
       [\<lparr>arm_id = ''strategic_0'', arm_lat = 20.2961, arm_lon = 85.8245,
          arm_type = ''strategic'', arm_name = ''City Center''\<rparr>,
        \<lparr>arm_id = ''grid_0'', arm_lat = 20.2, arm_lon = 85.7, arm_type = ''grid'',
          arm_name = ''Grid Station 1''\<rparr>,
        \<lparr>arm_id = ''random_0'', arm_lat = 20.3, arm_lon = 85.8, arm_type = ''random'',
          arm_name = ''Random Station 1''\<rparr>]
       [(4, 12.5), (0, - 3), (7, 40)] = Inr trace
     \<and> mset (map snd trace) =
         mset [\<lparr>arm_id = ''strategic_0'', arm_lat = 20.2961, arm_lon = 85.8245,
                 arm_type = ''strategic'', arm_name = ''City Center''\<rparr>,
               \<lparr>arm_id = ''grid_0'', arm_lat = 20.2, arm_lon = 85.7, arm_type = ''grid'',
                 arm_name = ''Grid Station 1''\<rparr>,
               \<lparr>arm_id = ''random_0'', arm_lat = 20.3, arm_lon = 85.8, arm_type = ''random'',
                 arm_name = ''Random Station 1''\<rparr>]"
  using ucb_first_selections
    [of "[\<lparr>arm_id = ''strategic_0'', arm_lat = 20.2961, arm_lon = 85.8245,
            arm_type = ''strategic'', arm_name = ''City Center''\<rparr>,
          \<lparr>arm_id = ''grid_0'', arm_lat = 20.2, arm_lon = 85.7, arm_type = ''grid'',
            arm_name = ''Grid Station 1''\<rparr>,
          \<lparr>arm_id = ''random_0'', arm_lat = 20.3, arm_lon = 85.8, arm_type = ''random'',
            arm_name = ''Random Station 1''\<rparr>]"
        "[(4, 12.5), (0, - 3), (7, 40)]" "2.0"]
  by auto

text \<open>
  The pools that \<^verbatim>\<open>generate_candidate_placements\<close> builds have pairwise distinct
  ids: the decimal representation of the index is injective and the three prefixes
  differ. So the first round of selections over a generated pool tries every candidate
  exactly once.
\<close>

lemma str_nat_small: "n < 10 \<Longrightarrow> str_nat n = [''0123456789'' ! n]"
  by (subst str_nat.simps) simp

lemma str_nat_large:
  "\<not> n < 10 \<Longrightarrow> str_nat n = str_nat (n div 10) @ [''0123456789'' ! (n mod 10)]"
  by (subst str_nat.simps) simp

lemma str_nat_nonempty: "str_nat n \<noteq> []"
  by (cases "n < 10") (simp_all add: str_nat_small str_nat_large)

lemma str_nat_large_length: "\<not> n < 10 \<Longrightarrow> 2 \<le> length (str_nat n)"
proof -
  assume "\<not> n < 10"
  moreover have "1 \<le> length (str_nat (n div 10))"
    using str_nat_nonempty [of "n div 10"] by (simp add: Suc_le_eq)
  ultimately show ?thesis by (simp add: str_nat_large)
qed

lemma digit_char_inj:
  assumes "i < 10" "j < 10" "''0123456789'' ! i = ''0123456789'' ! j"
  shows "i = j"
proof -
  have "distinct ''0123456789''" by simp
  moreover have "i < length ''0123456789''" "j < length ''0123456789''"
    using assms by simp_all
  ultimately show ?thesis using assms(3) by (simp only: nth_eq_iff_index_eq)
qed

lemma str_nat_inj: "str_nat m = str_nat n \<Longrightarrow> m = n"
proof (induction m arbitrary: n rule: str_nat.induct)
  case (1 m)
  show ?case
  proof (cases "m < 10")
    case m: True
    show ?thesis
    proof (cases "n < 10")
      case True
      then show ?thesis using m "1.prems" digit_char_inj [of m n]
        by (simp only: str_nat_small list.inject)
    next
      case False
      then have "length (str_nat n) \<ge> 2" by (rule str_nat_large_length)
      moreover have "length (str_nat m) = 1" using m by (simp only: str_nat_small) simp
      ultimately show ?thesis using "1.prems" by simp
    qed
  next
    case m: False
    show ?thesis
    proof (cases "n < 10")
      case True
      have "length (str_nat m) \<ge> 2" using m by (rule str_nat_large_length)
      moreover have "length (str_nat n) = 1" using True by (simp only: str_nat_small) simp
      ultimately show ?thesis using "1.prems" by simp
    next
      case False
      have eq: "str_nat (m div 10) @ [''0123456789'' ! (m mod 10)]
                = str_nat (n div 10) @ [''0123456789'' ! (n mod 10)]"
        using "1.prems" str_nat_large [OF m] str_nat_large [OF False] by simp
      then have "str_nat (m div 10) = str_nat (n div 10)"
        and d: "''0123456789'' ! (m mod 10) = ''0123456789'' ! (n mod 10)"
        by simp_all
      then have "m div 10 = n div 10" using "1.IH" [OF m] by blast
      moreover have "m mod 10 = n mod 10"
        using d by (intro digit_char_inj) simp_all
      ultimately show ?thesis by (metis div_mult_mod_eq)
    qed
  qed
qed

lemma distinct_prefixed_ids: "distinct (map (\<lambda>i. prefix @ str_nat i) [0..<n])"
  by (simp add: distinct_map inj_on_def str_nat_inj)

lemma strategic_arm_ids:
  "map arm_id (map strategic_arm (enumerate 0 xs)) =
     map (\<lambda>i. ''strategic_'' @ str_nat i) [0..<length xs]"
  by (rule nth_equalityI) (simp_all add: nth_enumerate_eq strategic_arm_def)

lemma grid_arm_ids:
  "map arm_id (map (grid_arm self grid_size rng) [0..<n]) = map (\<lambda>i. ''grid_'' @ str_nat i) [0..<n]"
  by (simp add: grid_arm_def Let_def)

lemma random_arm_ids:
  "map arm_id (map (random_arm self rng) [0..<n]) = map (\<lambda>i. ''random_'' @ str_nat i) [0..<n]"
  by (simp add: random_arm_def)

lemma generated_pool_distinct_ids:
  assumes "generate_candidate_placements self rng = Inr candidates"
  shows "distinct (map arm_id candidates)"
proof -
  obtain grid_size where gs: "grid_size_of (num_stations self) = Inr grid_size"
    using assms by (auto simp: generate_candidate_placements_def Let_def split: sum.splits)
  define n where "n = nat (num_stations self)"
  define k where "k = length (slice_upto (demand_centers self) (num_stations self))"
  have "map arm_id candidates =
          map (\<lambda>i. ''strategic_'' @ str_nat i) [0..<k]
          @ map (\<lambda>i. ''grid_'' @ str_nat i) [0..<n]
          @ map (\<lambda>i. ''random_'' @ str_nat i) [0..<n]"
    using assms
    by (auto simp: generate_candidate_placements_def Let_def gs strategic_arm_ids grid_arm_ids
        random_arm_ids n_def k_def simp del: map_map)
  then show ?thesis
    using distinct_prefixed_ids [of "''strategic_''" k] distinct_prefixed_ids [of "''grid_''" n]
      distinct_prefixed_ids [of "''random_''" n]
    by auto
qed

lemma ucb_first_selections_generated_pool:
  assumes "generate_candidate_placements self rng = Inr candidates"
    and "length steps = length candidates"
  shows "\<exists>trace. ucb_run (UCB_Bandit_init c) candidates steps = Inr trace
           \<and> mset (map snd trace) = mset candidates"
  using ucb_run_untried [OF generated_pool_distinct_ids [OF assms(1)], of steps "UCB_Bandit_init c"]
    assms(2)
  by (auto simp: untried_arms_init)

section \<open>Properties of the reward function\<close>

text \<open>
  Claim C7: the reward of the empty placement is exactly -1000.0, returned as a value,
  whatever the demand centers and the city bounds are.
\<close>

theorem calculate_reward_empty: "calculate_reward self [] = Inr (- 1000.0)"
  by simp

theorem calculate_reward_empty_witness:
  "calculate_reward (StationPlacementRL_init 25 10) [] = Inr (- 1000.0)"
  by (rule calculate_reward_empty)

subsection \<open>Geometry\<close>

text \<open>
  On the reals the local \<^verbatim>\<open>a\<close> of \<^verbatim>\<open>_haversine_distance\<close> lies between 0 and 1
  for all arguments, so neither \<^verbatim>\<open>math.sqrt(a)\<close> nor \<^verbatim>\<open>math.sqrt(1-a)\<close> raises.
\<close>

lemma radians_diff: "radians (x - y) = radians x - radians y"
  by (simp add: radians_def diff_divide_distrib left_diff_distrib)

lemma sin_half_squared: "(sin (x / 2))\<^sup>2 = (1 - cos x) / 2" for x :: real
  using cos_double_sin [of "x / 2"] by simp

lemma haversine_a_endpoint:
  "(sin ((q - p) / 2))\<^sup>2 + cos p * cos q = (1 + cos (p + q)) / 2" for p q :: real
proof -
  have "cos (q - p) = cos (p - q)" using cos_minus [of "p - q"] by simp
  then show ?thesis
    by (simp add: sin_half_squared cos_times_cos [of p q] field_simps)
qed

lemma haversine_a_range:
  "0 \<le> haversine_a lat1 lon1 lat2 lon2 \<and> haversine_a lat1 lon1 lat2 lon2 \<le> 1"
proof -
  define p where "p = radians lat1"
  define q where "q = radians lat2"
  define s where "s = (sin (radians (lon2 - lon1) / 2))\<^sup>2"
  define A where "A = (sin ((q - p) / 2))\<^sup>2"
  define C where "C = cos p * cos q"
  have a: "haversine_a lat1 lon1 lat2 lon2 = A + C * s"
    by (simp add: haversine_a_def Let_def radians_diff p_def q_def s_def A_def C_def)
  have s: "0 \<le> s" "s \<le> 1"
    by (simp_all add: s_def abs_square_le_1)
  have A: "0 \<le> A" "A \<le> 1"
    by (simp_all add: A_def abs_square_le_1)
  have e: "A + C = (1 + cos (p + q)) / 2"
    unfolding A_def C_def by (rule haversine_a_endpoint)
  have c: "- 1 \<le> cos (p + q)" "cos (p + q) \<le> 1" by simp_all
  have AC1: "0 \<le> A + C" using e c(1) by argo
  have AC2: "A + C \<le> 1" using e c(2) by argo
  note AC = AC1 AC2
  have lo: "0 \<le> A + C * s"
  proof (cases "0 \<le> C")
    case True
    then have "0 \<le> C * s" using s by simp
    then show ?thesis using A by simp
  next
    case False
    then have "C * 1 \<le> C * s" using s by (intro mult_left_mono_neg) simp_all
    then show ?thesis using AC by simp
  qed
  have hi: "A + C * s \<le> 1"
  proof (cases "0 \<le> C")
    case True
    then have "C * s \<le> C * 1" using s by (intro mult_left_mono) simp_all
    then show ?thesis using AC by simp
  next
    case False
    then have "C * s \<le> 0" using s by (simp add: mult_le_0_iff)
    then show ?thesis using A by simp
  qed
  show ?thesis using lo hi by (simp add: a)
qed

lemma atan2_nonneg: "0 \<le> y \<Longrightarrow> 0 \<le> x \<Longrightarrow> 0 \<le> atan2 y x"
  by (auto simp: atan2_def)

lemma atan2_pos: "0 < y \<Longrightarrow> 0 \<le> x \<Longrightarrow> 0 < atan2 y x"
  by (auto simp: atan2_def)

lemma haversine_distance_nonneg: "0 \<le> haversine_distance lat1 lon1 lat2 lon2"
  using haversine_a_range [of lat1 lon1 lat2 lon2]
  by (simp add: haversine_distance_def Let_def atan2_nonneg)

lemma haversine_distance_same: "haversine_distance lat lon lat lon = 0"
  by (simp add: haversine_distance_def haversine_a_def Let_def radians_def atan2_def)

lemma radians_bounds:
  assumes "\<bar>x\<bar> \<le> 90"
  shows "- (pi / 2) \<le> radians x \<and> radians x \<le> pi / 2"
proof -
  have "- 90 \<le> x" "x \<le> 90" using assms by simp_all
  then have "- 90 * pi \<le> x * pi" "x * pi \<le> 90 * pi"
    by (intro mult_right_mono; simp)+
  then show ?thesis by (simp add: radians_def)
qed

lemma haversine_a_pos:
  assumes "\<bar>lat1\<bar> \<le> 90" "\<bar>lat2\<bar> \<le> 90" "lat1 \<noteq> lat2"
  shows "0 < haversine_a lat1 lon1 lat2 lon2"
proof -
  define p where "p = radians lat1"
  define q where "q = radians lat2"
  have p: "- (pi / 2) \<le> p" "p \<le> pi / 2"
    using radians_bounds [OF assms(1)] by (simp_all add: p_def)
  have q: "- (pi / 2) \<le> q" "q \<le> pi / 2"
    using radians_bounds [OF assms(2)] by (simp_all add: q_def)
  have ne: "p \<noteq> q" using assms(3) by (simp add: p_def q_def radians_def)
  have C: "0 \<le> cos p * cos q"
    using p q by (simp add: cos_ge_zero)
  have "sin ((q - p) / 2) \<noteq> 0"
  proof (cases "p < q")
    case True
    then have "0 < (q - p) / 2" "(q - p) / 2 < pi" using p q pi_gt_zero by simp_all
    then show ?thesis using sin_gt_zero [of "(q - p) / 2"] by simp
  next
    case False
    then have "0 < (p - q) / 2" "(p - q) / 2 < pi" using ne p q pi_gt_zero by simp_all
    then have "0 < sin ((p - q) / 2)" by (rule sin_gt_zero)
    moreover have "(q - p) / 2 = - ((p - q) / 2)" by argo
    then have "sin ((q - p) / 2) = - sin ((p - q) / 2)"
      by (simp only: sin_minus)
    ultimately show ?thesis by simp
  qed
  then have A: "0 < (sin ((q - p) / 2))\<^sup>2" by simp
  have "0 \<le> cos p * cos q * (sin (radians (lon2 - lon1) / 2))\<^sup>2"
    using C by simp
  then show ?thesis using A
    by (simp add: haversine_a_def Let_def radians_diff p_def q_def add_pos_nonneg)
qed

lemma haversine_distance_pos:
  assumes "\<bar>lat1\<bar> \<le> 90" "\<bar>lat2\<bar> \<le> 90" "lat1 \<noteq> lat2"
  shows "0 < haversine_distance lat1 lon1 lat2 lon2"
  using haversine_a_pos [OF assms, of lon1 lon2] haversine_a_range [of lat1 lon1 lat2 lon2]
  by (simp add: haversine_distance_def Let_def atan2_pos)

subsection \<open>Spread\<close>

lemma spread_inner_loop_eq:
  "spread_inner_loop s1 rest (t, c) =
     (t + (\<Sum>s2\<leftarrow>rest. station_distance s1 s2), c + length rest)"
  by (induction rest arbitrary: t c) (simp_all add: add.assoc)

lemma pair_sum_Cons:
  "(\<Sum>i<length (s # rest). \<Sum>j = i + 1..<length (s # rest).
      station_distance ((s # rest) ! i) ((s # rest) ! j))
   = (\<Sum>s2\<leftarrow>rest. station_distance s s2)
     + (\<Sum>i<length rest. \<Sum>j = i + 1..<length rest. station_distance (rest ! i) (rest ! j))"
proof -
  let ?n = "length rest"
  let ?xs = "s # rest"
  have head: "(\<Sum>j = 0 + 1..<Suc ?n. station_distance (?xs ! 0) (?xs ! j))
              = (\<Sum>s2\<leftarrow>rest. station_distance s s2)"
  proof -
    have "(\<Sum>j = Suc 0..<Suc ?n. station_distance s (?xs ! j))
          = (\<Sum>j = 0..<?n. station_distance s (rest ! j))"
      by (simp only: sum.shift_bounds_Suc_ivl nth_Cons_Suc)
    also have "\<dots> = (\<Sum>s2\<leftarrow>rest. station_distance s s2)"
      by (simp add: sum_list_sum_nth)
    finally show ?thesis by simp
  qed
  have tail: "(\<Sum>j = Suc i + 1..<Suc ?n. station_distance (?xs ! Suc i) (?xs ! j))
              = (\<Sum>j = i + 1..<?n. station_distance (rest ! i) (rest ! j))" for i
    by (simp only: Suc_eq_plus1 [symmetric] sum.shift_bounds_Suc_ivl nth_Cons_Suc)
  have "(\<Sum>i<Suc ?n. \<Sum>j = i + 1..<Suc ?n. station_distance (?xs ! i) (?xs ! j))
        = (\<Sum>j = 0 + 1..<Suc ?n. station_distance (?xs ! 0) (?xs ! j))
          + (\<Sum>i<?n. \<Sum>j = Suc i + 1..<Suc ?n. station_distance (?xs ! Suc i) (?xs ! j))"
    by (simp only: sum.lessThan_Suc_shift comp_def)
  then show ?thesis
    by (simp only: head tail length_Cons)
qed

lemma choose2_Suc: "Suc n choose 2 = n + (n choose 2)"
  by (simp add: numeral_2_eq_2)

lemma spread_outer_loop_eq:
  "spread_outer_loop stations (t, c) =
     (t + (\<Sum>i<length stations. \<Sum>j = i + 1..<length stations.
             station_distance (stations ! i) (stations ! j)),
      c + (length stations choose 2))"
proof (induction stations arbitrary: t c)
  case Nil
  then show ?case by simp
next
  case (Cons s rest)
  show ?case
    unfolding spread_outer_loop.simps spread_inner_loop_eq Cons pair_sum_Cons
    by (simp add: choose2_Suc add.assoc)
qed

text \<open>
  Claim C8: a placement with fewer than 2 stations has spread 0; otherwise, with \<open>m\<close>
  the mean distance over all pairs of stations, the spread is 0 if \<open>m < 1.0\<close>, 1 if
  \<open>m > 5.0\<close>, and \<open>m / 5.0\<close> in between.
\<close>

theorem calculate_spread_spec:
  "calculate_spread stations =
     (if length stations < 2 then 0
      else if mean_pairwise_distance stations < 1.0 then 0
      else if mean_pairwise_distance stations > 5.0 then 1
      else mean_pairwise_distance stations / 5.0)"
proof (cases "length stations < 2")
  case True
  then show ?thesis by (simp add: calculate_spread_def)
next
  case False
  then have "0 < length stations choose 2"
    by (simp add: zero_less_binomial_iff)
  then show ?thesis using False
    by (simp add: calculate_spread_def spread_outer_loop_eq mean_pairwise_distance_def Let_def)
qed

theorem calculate_spread_spec_witness:
  "calculate_spread
     [\<lparr>station_id = ''ST01'', st_lat = 20.2, st_lon = 85.7, st_name = ''Grid Station 1'',
       st_type = ''grid''\<rparr>] = 0
   \<and> calculate_spread
       [\<lparr>station_id = ''ST01'', st_lat = 20.2, st_lon = 85.7, st_name = ''Grid Station 1'',
         st_type = ''grid''\<rparr>,
        \<lparr>station_id = ''ST02'', st_lat = 20.2, st_lon = 85.7, st_name = ''Grid Station 2'',
         st_type = ''grid''\<rparr>] = 0"
  using calculate_spread_spec
    [of "[\<lparr>station_id = ''ST01'', st_lat = 20.2, st_lon = 85.7, st_name = ''Grid Station 1'',
           st_type = ''grid''\<rparr>]"]
    calculate_spread_spec
    [of "[\<lparr>station_id = ''ST01'', st_lat = 20.2, st_lon = 85.7, st_name = ''Grid Station 1'',
           st_type = ''grid''\<rparr>,
          \<lparr>station_id = ''ST02'', st_lat = 20.2, st_lon = 85.7, st_name = ''Grid Station 2'',
           st_type = ''grid''\<rparr>]"]
  by (simp add: mean_pairwise_distance_def haversine_distance_same numeral_2_eq_2 lessThan_Suc)

subsection \<open>The reward formula\<close>

lemma min_dist_loop_Fin:
  "min_dist_loop center stations (Fin m) =
     Fin (Min (insert m (center_station_distance center ` set stations)))"
proof (induction stations arbitrary: m)
  case Nil
  then show ?case by simp
next
  case (Cons s stations)
  have "Min (insert (min m (center_station_distance center s))
             (center_station_distance center ` set stations))
        = Min (insert m (insert (center_station_distance center s)
             (center_station_distance center ` set stations)))"
    by (cases "stations = []") (simp_all add: min.assoc)
  then show ?case by (simp add: Cons)
qed

lemma min_dist_loop_PInf:
  "min_dist_loop center (s # stations) PInf = Fin (nearest_station_distance center (s # stations))"
  by (simp add: min_dist_loop_Fin nearest_station_distance_def)

lemma weighted_distance_loop_eq:
  "weighted_distance_loop centers s stations t =
     t + (\<Sum>center\<leftarrow>centers. nearest_station_distance center (s # stations) * dc_weight center)"
proof (induction centers arbitrary: t)
  case Nil
  then show ?case by simp
next
  case (Cons center centers)
  show ?case
    unfolding weighted_distance_loop.simps min_dist_loop_PInf xreal.case Cons
    by simp
qed

lemma within_2km_iff:
  "within_2km center stations \<longleftrightarrow> (\<exists>s\<in>set stations. center_station_distance center s \<le> 2.0)"
  by (induction stations) auto

lemma covered_centers_loop_eq:
  "covered_centers_loop centers stations c =
     c + length (filter (\<lambda>center. \<exists>s\<in>set stations. center_station_distance center s \<le> 2.0) centers)"
  by (induction centers arbitrary: c) (simp_all add: within_2km_iff)

lemma reward_avg_distance_eq:
  "demand_centers self \<noteq> [] \<Longrightarrow>
   reward_avg_distance self s stations = Inr (spec_avg_distance self (s # stations))"
  by (simp add: reward_avg_distance_def weighted_distance_loop_eq spec_avg_distance_def)

lemma calculate_coverage_eq:
  "demand_centers self \<noteq> [] \<Longrightarrow>
   calculate_coverage self (s # stations) = Inr (spec_coverage self (s # stations))"
  by (simp add: calculate_coverage_def covered_centers_loop_eq spec_coverage_def)

text \<open>
  Claim C6: for a non-empty placement the reward is
  \<open>(- avg_distance * 10) + (coverage * 100) + (spread * 50)\<close>, with the demand-weighted
  distance term and the coverage as the specification words them. The formula divides
  by the number of demand centers: for an empty list of demand centers the division of
  line 294 raises ZeroDivisionError.
\<close>

theorem calculate_reward_formula:
  assumes "placement \<noteq> []"
  shows "(demand_centers self \<noteq> [] \<longrightarrow>
            calculate_reward self placement =
              Inr ((- spec_avg_distance self placement * 10)
                   + (spec_coverage self placement * 100)
                   + (calculate_spread placement * 50)))
         \<and> (demand_centers self = [] \<longrightarrow> calculate_reward self placement = Inl ZeroDivisionError)"
proof -
  obtain s stations where p: "placement = s # stations"
    using assms by (cases placement) simp_all
  show ?thesis
    unfolding p
    by (simp add: reward_avg_distance_eq calculate_coverage_eq Let_def)
       (simp add: reward_avg_distance_def)
qed

theorem calculate_reward_formula_witness:
  "calculate_reward (StationPlacementRL_init 25 10)
     [\<lparr>station_id = ''ST01'', st_lat = 20.2961, st_lon = 85.8245, st_name = ''City Center'',
       st_type = ''strategic''\<rparr>]
   = Inr ((- spec_avg_distance (StationPlacementRL_init 25 10)
              [\<lparr>station_id = ''ST01'', st_lat = 20.2961, st_lon = 85.8245,
                st_name = ''City Center'', st_type = ''strategic''\<rparr>] * 10)
          + (spec_coverage (StationPlacementRL_init 25 10)
              [\<lparr>station_id = ''ST01'', st_lat = 20.2961, st_lon = 85.8245,
                st_name = ''City Center'', st_type = ''strategic''\<rparr>] * 100)
          + (calculate_spread
              [\<lparr>station_id = ''ST01'', st_lat = 20.2961, st_lon = 85.8245,
                st_name = ''City Center'', st_type = ''strategic''\<rparr>] * 50))"
  using calculate_reward_formula
    [of "[\<lparr>station_id = ''ST01'', st_lat = 20.2961, st_lon = 85.8245,
           st_name = ''City Center'', st_type = ''strategic''\<rparr>]" "StationPlacementRL_init 25 10"]
  by (simp add: StationPlacementRL_init_def)

section \<open>Properties of the result export\<close>

lemma total_distance_loop_eq:
  "total_distance_loop centers (s # stations) (Fin t) =
     Fin (t + (\<Sum>center\<leftarrow>centers. nearest_station_distance center (s # stations)))"
proof (induction centers arbitrary: t)
  case Nil
  then show ?case by simp
next
  case (Cons center centers)
  show ?case
    unfolding total_distance_loop.simps min_dist_loop_PInf xadd.simps Cons
    by simp
qed

lemma calculate_avg_distance_to_demand_eq:
  "demand_centers self \<noteq> [] \<Longrightarrow>
   calculate_avg_distance_to_demand self (s # stations) =
     Inr (Fin (unweighted_avg_distance self (s # stations)))"
  by (simp add: calculate_avg_distance_to_demand_def total_distance_loop_eq
      unweighted_avg_distance_def)

lemma unit_weights_avg:
  assumes "\<forall>center\<in>set (demand_centers self). dc_weight center = 1"
  shows "unweighted_avg_distance self placement = spec_avg_distance self placement"
proof -
  have "(\<Sum>center\<leftarrow>demand_centers self. nearest_station_distance center placement * dc_weight center)
        = (\<Sum>center\<leftarrow>demand_centers self. nearest_station_distance center placement)"
    using assms by (intro arg_cong [where f = sum_list] map_cong) simp_all
  then show ?thesis
    by (simp add: unweighted_avg_distance_def spec_avg_distance_def)
qed

lemma nearest_single: "nearest_station_distance center [s] = center_station_distance center s"
  by (simp add: nearest_station_distance_def)

text \<open>
  Claim C2, amended. For a non-empty placement and a non-empty list of demand centers
  \<^verbatim>\<open>save_results\<close> returns a record whose coverage and spread are the coverage and
  spread terms of the reward of that placement, and whose \<open>avg_distance\<close> is the plain
  mean of the nearest distances. It equals the demand-weighted distance term of the
  reward when every demand center has weight 1.
\<close>

theorem save_results_metrics:
  assumes "placement \<noteq> []" "demand_centers self \<noteq> []"
  shows "\<exists>r. save_results self placement = Inr r
           \<and> calculate_reward self placement =
               Inr ((- spec_avg_distance self placement * 10)
                    + (coverage (r_metrics r) * 100)
                    + (spread (r_metrics r) * 50))
           \<and> coverage (r_metrics r) = spec_coverage self placement
           \<and> spread (r_metrics r) = calculate_spread placement
           \<and> avg_distance (r_metrics r) = Fin (unweighted_avg_distance self placement)
           \<and> ((\<forall>center\<in>set (demand_centers self). dc_weight center = 1) \<longrightarrow>
                 avg_distance (r_metrics r) = Fin (spec_avg_distance self placement))"
proof -
  obtain s stations where p: "placement = s # stations"
    using assms(1) by (cases placement) simp_all
  show ?thesis
    unfolding p using assms(2)
    by (simp add: save_results_def calculate_coverage_eq calculate_avg_distance_to_demand_eq
        reward_avg_distance_eq unit_weights_avg Let_def)
qed

theorem save_results_metrics_witness:
  "\<exists>r. save_results (StationPlacementRL_init 25 10)
          [\<lparr>station_id = ''ST01'', st_lat = 20.2961, st_lon = 85.8245,
            st_name = ''City Center'', st_type = ''strategic''\<rparr>] = Inr r
       \<and> avg_distance (r_metrics r) =
           Fin (unweighted_avg_distance (StationPlacementRL_init 25 10)
                  [\<lparr>station_id = ''ST01'', st_lat = 20.2961, st_lon = 85.8245,
                    st_name = ''City Center'', st_type = ''strategic''\<rparr>])"
  using save_results_metrics
    [of "[\<lparr>station_id = ''ST01'', st_lat = 20.2961, st_lon = 85.8245,
           st_name = ''City Center'', st_type = ''strategic''\<rparr>]" "StationPlacementRL_init 25 10"]
  by (auto simp: StationPlacementRL_init_def)

text \<open>
  Claim C2 fails for the demand centers of the constructor, whose weights are 1.0, 0.9,
  0.8, 0.7 and 0.6: for the placement of one station at the city center the exported
  \<open>avg_distance\<close> is the plain mean, the reward uses the weighted term, and the weighted
  term is strictly smaller.
\<close>

theorem save_results_metrics_counterexample:
  "map_sum id (avg_distance \<circ> r_metrics)
     (save_results (StationPlacementRL_init 25 10)
        [\<lparr>station_id = ''ST01'', st_lat = 20.2961, st_lon = 85.8245,
          st_name = ''City Center'', st_type = ''strategic''\<rparr>])
   = Inr (Fin (unweighted_avg_distance (StationPlacementRL_init 25 10)
        [\<lparr>station_id = ''ST01'', st_lat = 20.2961, st_lon = 85.8245,
          st_name = ''City Center'', st_type = ''strategic''\<rparr>]))
   \<and> reward_avg_distance (StationPlacementRL_init 25 10)
        \<lparr>station_id = ''ST01'', st_lat = 20.2961, st_lon = 85.8245,
          st_name = ''City Center'', st_type = ''strategic''\<rparr> []
      = Inr (spec_avg_distance (StationPlacementRL_init 25 10)
        [\<lparr>station_id = ''ST01'', st_lat = 20.2961, st_lon = 85.8245,
          st_name = ''City Center'', st_type = ''strategic''\<rparr>])
   \<and> spec_avg_distance (StationPlacementRL_init 25 10)
        [\<lparr>station_id = ''ST01'', st_lat = 20.2961, st_lon = 85.8245,
          st_name = ''City Center'', st_type = ''strategic''\<rparr>]
      < unweighted_avg_distance (StationPlacementRL_init 25 10)
        [\<lparr>station_id = ''ST01'', st_lat = 20.2961, st_lon = 85.8245,
          st_name = ''City Center'', st_type = ''strategic''\<rparr>]"
proof -
  define S where "S = StationPlacementRL_init 25 10"
  define s0 where "s0 = \<lparr>station_id = ''ST01'', st_lat = 20.2961, st_lon = 85.8245,
          st_name = ''City Center'', st_type = ''strategic''\<rparr>"
  have ne: "demand_centers S \<noteq> []" by (simp add: S_def StationPlacementRL_init_def)
  have 1: "map_sum id (avg_distance \<circ> r_metrics) (save_results S [s0])
           = Inr (Fin (unweighted_avg_distance S [s0]))"
    using ne
    by (simp add: save_results_def calculate_coverage_eq calculate_avg_distance_to_demand_eq)
  have 2: "reward_avg_distance S s0 [] = Inr (spec_avg_distance S [s0])"
    using ne by (rule reward_avg_distance_eq)
  define d2 where "d2 = haversine_distance 20.2644 85.8281 20.2961 85.8245"
  define d3 where "d3 = haversine_distance 20.3100 85.8500 20.2961 85.8245"
  define d4 where "d4 = haversine_distance 20.2500 85.8500 20.2961 85.8245"
  define d5 where "d5 = haversine_distance 20.3000 85.8800 20.2961 85.8245"
  have pos: "0 < d2" unfolding d2_def by (rule haversine_distance_pos) simp_all
  have nonneg: "0 \<le> d3" "0 \<le> d4" "0 \<le> d5"
    unfolding d3_def d4_def d5_def by (rule haversine_distance_nonneg)+
  have w: "spec_avg_distance S [s0] = (0.9 * d2 + 0.8 * d3 + 0.7 * d4 + 0.6 * d5) / 5"
    by (simp add: spec_avg_distance_def S_def s0_def StationPlacementRL_init_def nearest_single
        haversine_distance_same d2_def d3_def d4_def d5_def)
  have u: "unweighted_avg_distance S [s0] = (d2 + d3 + d4 + d5) / 5"
    by (simp add: unweighted_avg_distance_def S_def s0_def StationPlacementRL_init_def
        nearest_single haversine_distance_same d2_def d3_def d4_def d5_def)
  have 3: "spec_avg_distance S [s0] < unweighted_avg_distance S [s0]"
    unfolding w u using pos nonneg by argo
  show ?thesis using 1 2 3 unfolding S_def s0_def by blast
qed

section \<open>Properties of the materialization of placements\<close>

text \<open>
  For a station count \<open>N \<ge> 0\<close> the materialization returns; a grid or random arm
  yields \<open>N\<close> station records, a strategic arm one record for each of the first \<open>N\<close>
  demand centers.
\<close>

lemma length_slice_upto_nonneg:
  "0 \<le> n \<Longrightarrow> length (slice_upto xs n) = min (nat n) (length xs)"
  by (simp add: slice_upto_def min_def)

lemma grid_size_of_nonneg: "0 \<le> n \<Longrightarrow> grid_size_of n = Inr (nat \<lceil>sqrt (real_of_int n)\<rceil>)"
  by (simp add: grid_size_of_def)

lemma create_placement_from_arm_length:
  assumes "0 \<le> num_stations self"
  shows "\<exists>placement. create_placement_from_arm self a rng = Inr placement
           \<and> length placement =
               (if arm_type a = ''strategic''
                then min (nat (num_stations self)) (length (demand_centers self))
                else nat (num_stations self))"
  using assms
  by (simp add: create_placement_from_arm_def grid_size_of_nonneg length_slice_upto_nonneg
      enumerate_eq_zip)

text \<open>
  Claim C1 says that every materialized placement has exactly \<open>N\<close> station records,
  also for a strategic arm with 5 demand centers and \<open>N = 25\<close>. For the system as
  \<^verbatim>\<open>main\<close> constructs it and its first candidate arm, the strategic branch returns
  the five demand centers and nothing else: five records, not 25.
\<close>

theorem create_placement_strategic_default:
  "create_placement_from_arm (StationPlacementRL_init 25 10)
     \<lparr>arm_id = ''strategic_0'', arm_lat = 20.2961, arm_lon = 85.8245,
      arm_type = ''strategic'', arm_name = ''City Center''\<rparr> rng
   = Inr [\<lparr>station_id = ''ST01'', st_lat = 20.2961, st_lon = 85.8245,
            st_name = ''City Center'', st_type = ''strategic''\<rparr>,
          \<lparr>station_id = ''ST02'', st_lat = 20.2644, st_lon = 85.8281,
            st_name = ''KIIT Area'', st_type = ''strategic''\<rparr>,
          \<lparr>station_id = ''ST03'', st_lat = 20.3100, st_lon = 85.8500,
            st_name = ''Patia IT Hub'', st_type = ''strategic''\<rparr>,
          \<lparr>station_id = ''ST04'', st_lat = 20.2500, st_lon = 85.8500,
            st_name = ''Railway Station'', st_type = ''strategic''\<rparr>,
          \<lparr>station_id = ''ST05'', st_lat = 20.3000, st_lon = 85.8800,
            st_name = ''Airport Area'', st_type = ''strategic''\<rparr>]
   \<and> map_sum id length
       (create_placement_from_arm (StationPlacementRL_init 25 10)
          \<lparr>arm_id = ''strategic_0'', arm_lat = 20.2961, arm_lon = 85.8245,
           arm_type = ''strategic'', arm_name = ''City Center''\<rparr> rng) = Inr 5"
  by (simp add: create_placement_from_arm_def StationPlacementRL_init_def slice_upto_def
      enumerate_eq_zip strategic_station_def str_nat_02d_def str_nat.simps upt_rec)

text \<open>
  This arm is selected in a run: it is the first candidate, the fresh UCB bandit picks
  it when \<^verbatim>\<open>random.choice\<close> draws index 0, and a run of one episode then returns the
  placement of five stations as the best placement.
\<close>

lemma grid_station_bandit: "grid_station (self\<lparr>ucb_bandit := b\<rparr>) = grid_station self"
  by (rule ext)+ (simp add: grid_station_def grid_lat_def grid_lon_def)

lemma random_station_bandit: "random_station (self\<lparr>ucb_bandit := b\<rparr>) = random_station self"
  by (rule ext)+ (simp add: random_station_def)

lemma create_placement_from_arm_bandit:
  "create_placement_from_arm (self\<lparr>ucb_bandit := b\<rparr>) a rng = create_placement_from_arm self a rng"
  by (simp add: create_placement_from_arm_def grid_station_bandit random_station_bandit
      split: sum.splits)

lemma calculate_reward_returns:
  "demand_centers self \<noteq> [] \<Longrightarrow> \<exists>reward. calculate_reward self placement = Inr reward"
  by (cases placement)
     (simp_all add: reward_avg_distance_def calculate_coverage_def Let_def)

lemma strategic_placement_25:
  "create_placement_from_arm (StationPlacementRL_init 25 k)
     \<lparr>arm_id = ''strategic_0'', arm_lat = 20.2961, arm_lon = 85.8245,
      arm_type = ''strategic'', arm_name = ''City Center''\<rparr> rng
   = Inr [\<lparr>station_id = ''ST01'', st_lat = 20.2961, st_lon = 85.8245,
            st_name = ''City Center'', st_type = ''strategic''\<rparr>,
          \<lparr>station_id = ''ST02'', st_lat = 20.2644, st_lon = 85.8281,
            st_name = ''KIIT Area'', st_type = ''strategic''\<rparr>,
          \<lparr>station_id = ''ST03'', st_lat = 20.3100, st_lon = 85.8500,
            st_name = ''Patia IT Hub'', st_type = ''strategic''\<rparr>,
          \<lparr>station_id = ''ST04'', st_lat = 20.2500, st_lon = 85.8500,
            st_name = ''Railway Station'', st_type = ''strategic''\<rparr>,
          \<lparr>station_id = ''ST05'', st_lat = 20.3000, st_lon = 85.8800,
            st_name = ''Airport Area'', st_type = ''strategic''\<rparr>]"
  by (simp add: create_placement_from_arm_def StationPlacementRL_init_def slice_upto_def
      enumerate_eq_zip strategic_station_def str_nat_02d_def str_nat.simps upt_rec)

lemma first_candidate_selected_25:
  "\<exists>candidates b.
     generate_candidate_placements (StationPlacementRL_init 25 k) rng = Inr candidates
     \<and> ucb_select_arm (ucb_bandit (StationPlacementRL_init 25 k)) candidates 0 =
         (Inr (Some \<lparr>arm_id = ''strategic_0'', arm_lat = 20.2961, arm_lon = 85.8245,
                      arm_type = ''strategic'', arm_name = ''City Center''\<rparr>), b)"
proof -
  define S where "S = StationPlacementRL_init 25 k"
  define a0 where "a0 = \<lparr>arm_id = ''strategic_0'', arm_lat = 20.2961, arm_lon = 85.8245,
                      arm_type = ''strategic'', arm_name = ''City Center''\<rparr>"
  obtain rest where g: "generate_candidate_placements S rng = Inr (a0 # rest)"
    by (simp add: generate_candidate_placements_def S_def a0_def StationPlacementRL_init_def
        slice_upto_def enumerate_eq_zip strategic_arm_def grid_size_of_def str_nat.simps
        upt_rec Let_def)
  have u: "untried_arms (ucb_bandit S) (a0 # rest) = a0 # rest"
    by (simp add: S_def StationPlacementRL_init_def untried_arms_init)
  then have "untried_arms (ucb_bandit S) (a0 # rest) \<noteq> []" by simp
  from ucb_select_arm_untried [OF this, of 0] obtain b where
    "ucb_select_arm (ucb_bandit S) (a0 # rest) 0 = (Inr (Some a0), b)"
    unfolding u by (auto simp: random_choice_def)
  then show ?thesis using g unfolding S_def a0_def by blast
qed

lemma optimize_placement_one_episode:
  assumes "draw_choice (draws 0) = 0"
  shows "\<exists>self'. optimize_placement (StationPlacementRL_init 25 1) ''ucb'' rng draws =
           Inr ([\<lparr>station_id = ''ST01'', st_lat = 20.2961, st_lon = 85.8245,
                    st_name = ''City Center'', st_type = ''strategic''\<rparr>,
                  \<lparr>station_id = ''ST02'', st_lat = 20.2644, st_lon = 85.8281,
                    st_name = ''KIIT Area'', st_type = ''strategic''\<rparr>,
                  \<lparr>station_id = ''ST03'', st_lat = 20.3100, st_lon = 85.8500,
                    st_name = ''Patia IT Hub'', st_type = ''strategic''\<rparr>,
                  \<lparr>station_id = ''ST04'', st_lat = 20.2500, st_lon = 85.8500,
                    st_name = ''Railway Station'', st_type = ''strategic''\<rparr>,
                  \<lparr>station_id = ''ST05'', st_lat = 20.3000, st_lon = 85.8800,
                    st_name = ''Airport Area'', st_type = ''strategic''\<rparr>], self')"
proof -
  define S where "S = StationPlacementRL_init 25 1"
  define a0 where "a0 = \<lparr>arm_id = ''strategic_0'', arm_lat = 20.2961, arm_lon = 85.8245,
                      arm_type = ''strategic'', arm_name = ''City Center''\<rparr>"
  define P where "P = [\<lparr>station_id = ''ST01'', st_lat = 20.2961, st_lon = 85.8245,
                    st_name = ''City Center'', st_type = ''strategic''\<rparr>,
                  \<lparr>station_id = ''ST02'', st_lat = 20.2644, st_lon = 85.8281,
                    st_name = ''KIIT Area'', st_type = ''strategic''\<rparr>,
                  \<lparr>station_id = ''ST03'', st_lat = 20.3100, st_lon = 85.8500,
                    st_name = ''Patia IT Hub'', st_type = ''strategic''\<rparr>,
                  \<lparr>station_id = ''ST04'', st_lat = 20.2500, st_lon = 85.8500,
                    st_name = ''Railway Station'', st_type = ''strategic''\<rparr>,
                  \<lparr>station_id = ''ST05'', st_lat = 20.3000, st_lon = 85.8800,
                    st_name = ''Airport Area'', st_type = ''strategic''\<rparr>]"
  obtain candidates b where
    g: "generate_candidate_placements S rng = Inr candidates" and
    sel: "ucb_select_arm (ucb_bandit S) candidates 0 = (Inr (Some a0), b)"
    using first_candidate_selected_25 [of 1 rng] unfolding S_def a0_def by blast
  define S1 where "S1 = S\<lparr>ucb_bandit := b\<rparr>"
  have bs: "bandit_select ''ucb'' S candidates (draws 0) = Inr (Some a0, S1)"
    by (simp add: bandit_select_def assms sel S1_def)
  have cp: "create_placement_from_arm S1 a0 (draw_uniform (draws 0)) = Inr P"
    unfolding S1_def create_placement_from_arm_bandit S_def a0_def P_def
    by (rule strategic_placement_25)
  have "demand_centers S1 \<noteq> []"
    by (simp add: S1_def S_def StationPlacementRL_init_def)
  then obtain reward where r: "calculate_reward S1 P = Inr reward"
    using calculate_reward_returns by blast
  obtain S4 where ep: "episode ''ucb'' candidates (draws 0) (S, None) = Inr (S4, Some (P, reward))"
    by (simp add: episode_def bs cp r Let_def)
  have k: "map draws [0..<nat (num_episodes S)] = [draws 0]"
    by (simp add: S_def StationPlacementRL_init_def)
  have "optimize_placement S ''ucb'' rng draws = Inr (P, S4)"
    by (simp add: optimize_placement_def g k ep)
  then show ?thesis unfolding S_def P_def by blast
qed

text \<open>
  Claim C4, amended. The grid branch of \<^verbatim>\<open>_create_placement_from_arm\<close> draws no
  random number and reads neither the coordinates nor the id of the arm: all
  materialization calls with a grid arm on the same system yield the same placement,
  whatever the random source gives. The jitter of lines 241-242 is applied to the
  coordinates of the candidate arms only.
\<close>

theorem grid_materialization_stable:
  assumes "arm_type a = ''grid''" "arm_type a' = ''grid''"
  shows "create_placement_from_arm self a rng = create_placement_from_arm self a' rng'"
  using assms by (simp add: create_placement_from_arm_def)

theorem grid_materialization_stable_witness:
  "create_placement_from_arm (StationPlacementRL_init 25 10)
     \<lparr>arm_id = ''grid_0'', arm_lat = 20.2, arm_lon = 85.703, arm_type = ''grid'',
      arm_name = ''Grid Station 1''\<rparr> (\<lambda>n. 0)
   = create_placement_from_arm (StationPlacementRL_init 25 10)
     \<lparr>arm_id = ''grid_7'', arm_lat = 20.245, arm_lon = 85.8, arm_type = ''grid'',
      arm_name = ''Grid Station 8''\<rparr> (\<lambda>n. 1 / 2)"
  by (rule grid_materialization_stable) simp_all

text \<open>
  Claim C4 fails: for the system as \<^verbatim>\<open>main\<close> constructs it and a grid arm, no two
  materialization calls differ in their sequence of coordinates.
\<close>

theorem grid_materialization_stable_counterexample:
  "\<not> (\<exists>rng rng'.
        map_sum id (map (\<lambda>s. (st_lat s, st_lon s)))
          (create_placement_from_arm (StationPlacementRL_init 25 10)
             \<lparr>arm_id = ''grid_0'', arm_lat = 20.2, arm_lon = 85.703, arm_type = ''grid'',
              arm_name = ''Grid Station 1''\<rparr> rng)
        \<noteq> map_sum id (map (\<lambda>s. (st_lat s, st_lon s)))
          (create_placement_from_arm (StationPlacementRL_init 25 10)
             \<lparr>arm_id = ''grid_0'', arm_lat = 20.2, arm_lon = 85.703, arm_type = ''grid'',
              arm_name = ''Grid Station 1''\<rparr> rng'))"
  by (simp add: create_placement_from_arm_def)

end
